theory Spec2Isabelle
  imports Complex_Main "HOL-Library.Char_ord" "HOL-Library.List_Lexorder"
begin

section \<open>JavaScript values\<close>

text \<open>
  The program is browser JavaScript (\<^verbatim>\<open>src/script.js\<close>, the generic mode, and
  \<^verbatim>\<open>src/unnamed/part_000\<close>, the static mode). Its data are the values a parsed JSON
  document of flat objects holds: numbers, strings, booleans and \<^verbatim>\<open>null\<close>, plus what
  reading a property the record does not have gives: \<^verbatim>\<open>undefined\<close>, or a member inherited
  from \<^verbatim>\<open>Object.prototype\<close>.

  A JavaScript string is a sequence of UTF-16 code units; a code unit is modelled as a
  natural number (below 65536), and strings are ordered by their code units,
  lexicographically, as the language's \<^verbatim>\<open><\<close> on strings orders them. \<open>lit\<close> gives the
  code units of a literal of the program text.
\<close>

type_synonym jstring = "nat list"

definition lit :: "string \<Rightarrow> jstring" where
  "lit s = map of_char s"

text \<open>
  A JavaScript number is NaN, one of the two infinities, or a finite value. Finite values
  are modelled as exact reals: rounding to IEEE doubles, overflow and the sign of zero are
  not modelled. (A JSON numeral too large for a double, such as \<^verbatim>\<open>1e999\<close>, is parsed to
  \<^verbatim>\<open>Infinity\<close>.)
\<close>

datatype jsnum = NaN | PInf | NInf | Fin real

text \<open>
  \<open>Member k\<close> is the member of \<^verbatim>\<open>Object.prototype\<close> named \<open>k\<close>: a function, or for
  \<^verbatim>\<open>__proto__\<close> the prototype object itself.
\<close>

datatype jsval = Undefined | Null | Bool bool | Num jsnum | Str jstring | Member jstring

fun js_neg :: "jsnum \<Rightarrow> jsnum" where
  "js_neg NaN = NaN"
| "js_neg PInf = NInf"
| "js_neg NInf = PInf"
| "js_neg (Fin a) = Fin (- a)"

fun js_add :: "jsnum \<Rightarrow> jsnum \<Rightarrow> jsnum" where
  "js_add (Fin a) (Fin b) = Fin (a + b)"
| "js_add (Fin a) PInf = PInf"
| "js_add (Fin a) NInf = NInf"
| "js_add PInf (Fin b) = PInf"
| "js_add NInf (Fin b) = NInf"
| "js_add PInf PInf = PInf"
| "js_add NInf NInf = NInf"
| "js_add PInf NInf = NaN"
| "js_add NInf PInf = NaN"
| "js_add NaN _ = NaN"
| "js_add _ NaN = NaN"

definition js_sub :: "jsnum \<Rightarrow> jsnum \<Rightarrow> jsnum" where
  "js_sub a b = js_add a (js_neg b)"

text \<open>The infinity of the given sign.\<close>

definition signed_inf :: "bool \<Rightarrow> jsnum" where
  "signed_inf positive = (if positive then PInf else NInf)"

fun js_mul :: "jsnum \<Rightarrow> jsnum \<Rightarrow> jsnum" where
  "js_mul (Fin a) (Fin b) = Fin (a * b)"
| "js_mul (Fin a) PInf = (if a = 0 then NaN else signed_inf (0 < a))"
| "js_mul (Fin a) NInf = (if a = 0 then NaN else signed_inf (a < 0))"
| "js_mul PInf (Fin b) = (if b = 0 then NaN else signed_inf (0 < b))"
| "js_mul NInf (Fin b) = (if b = 0 then NaN else signed_inf (b < 0))"
| "js_mul PInf PInf = PInf"
| "js_mul NInf NInf = PInf"
| "js_mul PInf NInf = NInf"
| "js_mul NInf PInf = NInf"
| "js_mul NaN _ = NaN"
| "js_mul _ NaN = NaN"

text \<open>
  Division as IEEE 754 has it, the divisor zero being the positive zero (the only zero
  divisor of the program is \<^verbatim>\<open>dims.length - 1\<close>).
\<close>

fun js_div :: "jsnum \<Rightarrow> jsnum \<Rightarrow> jsnum" where
  "js_div (Fin a) (Fin b) =
     (if b = 0 then (if a = 0 then NaN else signed_inf (0 < a)) else Fin (a / b))"
| "js_div (Fin a) PInf = Fin 0"
| "js_div (Fin a) NInf = Fin 0"
| "js_div PInf (Fin b) = signed_inf (0 \<le> b)"
| "js_div NInf (Fin b) = signed_inf (b < 0)"
| "js_div PInf PInf = NaN"
| "js_div NInf NInf = NaN"
| "js_div PInf NInf = NaN"
| "js_div NInf PInf = NaN"
| "js_div NaN _ = NaN"
| "js_div _ NaN = NaN"

text \<open>The relational operator \<^verbatim>\<open><\<close> on numbers: false as soon as one side is NaN.\<close>

fun js_lt :: "jsnum \<Rightarrow> jsnum \<Rightarrow> bool" where
  "js_lt (Fin a) (Fin b) = (a < b)"
| "js_lt (Fin a) PInf = True"
| "js_lt NInf (Fin b) = True"
| "js_lt NInf PInf = True"
| "js_lt _ _ = False"

text \<open>The global \<^verbatim>\<open>isNaN\<close> and \<^verbatim>\<open>isFinite\<close> on a number, and the truthiness of a number.\<close>

fun isNaN :: "jsnum \<Rightarrow> bool" where
  "isNaN NaN = True"
| "isNaN _ = False"

fun isFinite :: "jsnum \<Rightarrow> bool" where
  "isFinite (Fin a) = True"
| "isFinite _ = False"

fun truthy_num :: "jsnum \<Rightarrow> bool" where
  "truthy_num NaN = False"
| "truthy_num (Fin a) = (a \<noteq> 0)"
| "truthy_num _ = True"

text \<open>
  \<^verbatim>\<open>Math.min(...xs)\<close> and \<^verbatim>\<open>Math.max(...xs)\<close>: the running result starts at
  \<^verbatim>\<open>+Infinity\<close> (\<^verbatim>\<open>-Infinity\<close>), and one NaN argument makes the result NaN.
\<close>

fun min2 :: "jsnum \<Rightarrow> jsnum \<Rightarrow> jsnum" where
  "min2 NaN _ = NaN"
| "min2 _ NaN = NaN"
| "min2 a b = (if js_lt b a then b else a)"

fun max2 :: "jsnum \<Rightarrow> jsnum \<Rightarrow> jsnum" where
  "max2 NaN _ = NaN"
| "max2 _ NaN = NaN"
| "max2 a b = (if js_lt a b then b else a)"

definition Math_min :: "jsnum list \<Rightarrow> jsnum" where
  "Math_min xs = foldl min2 PInf xs"

definition Math_max :: "jsnum list \<Rightarrow> jsnum" where
  "Math_max xs = foldl max2 NInf xs"

text \<open>
  The conversions of the language the program relies on and that need the text of a value:
  reading a string as a number (\<^verbatim>\<open>Number(s)\<close>, also applied by \<^verbatim>\<open>Math.min\<close> and by unary
  \<^verbatim>\<open>+\<close>), printing a finite number (\<^verbatim>\<open>String(n)\<close>, applied by the default \<^verbatim>\<open>sort\<close>), and
  the text an inherited member of \<^verbatim>\<open>Object.prototype\<close> prints as (the source text of a
  built-in function, which the implementation chooses). They are the language's, not the
  repository's, and are parameters of every function below that needs them.
\<close>

record builtins =
  StringToNumber :: "jstring \<Rightarrow> jsnum"
  NumberToString :: "real \<Rightarrow> jstring"
  MemberToString :: "jstring \<Rightarrow> jstring"

fun ToString :: "builtins \<Rightarrow> jsval \<Rightarrow> jstring" where
  "ToString B Undefined = lit ''undefined''"
| "ToString B Null = lit ''null''"
| "ToString B (Num NaN) = lit ''NaN''"
| "ToString B (Num PInf) = lit ''Infinity''"
| "ToString B (Num NInf) = lit ''-Infinity''"
| "ToString B (Num (Fin a)) = NumberToString B a"
| "ToString B (Str s) = s"
| "ToString B (Bool b) = lit (if b then ''true'' else ''false'')"
| "ToString B (Member k) = MemberToString B k"

text \<open>
  \<^verbatim>\<open>Number(v)\<close>. An inherited member is an object whose \<^verbatim>\<open>valueOf\<close> returns the object
  itself, so it is converted through its string form.
\<close>

fun ToNumber :: "builtins \<Rightarrow> jsval \<Rightarrow> jsnum" where
  "ToNumber B Undefined = NaN"
| "ToNumber B Null = Fin 0"
| "ToNumber B (Num n) = n"
| "ToNumber B (Str s) = StringToNumber B s"
| "ToNumber B (Bool b) = Fin (if b then 1 else 0)"
| "ToNumber B (Member k) = StringToNumber B (MemberToString B k)"

text \<open>
  A record of the dataset is a flat object made by \<^verbatim>\<open>JSON.parse\<close>: its own properties,
  each name once, in property order (a key \<^verbatim>\<open>__proto__\<close> of the document is an own property
  like any other), with \<^verbatim>\<open>Object.prototype\<close> as its prototype. \<^verbatim>\<open>row[dim]\<close> is the own property if there
  is one; for a name the record lacks it is the member of \<^verbatim>\<open>Object.prototype\<close> of that
  name if there is one, and \<^verbatim>\<open>undefined\<close> otherwise.
\<close>

type_synonym row = "(jstring \<times> jsval) list"

definition Object_prototype_names :: "string list" where
  "Object_prototype_names =
     [''constructor'', ''__defineGetter__'', ''__defineSetter__'', ''hasOwnProperty'',
      ''__lookupGetter__'', ''__lookupSetter__'', ''isPrototypeOf'',
      ''propertyIsEnumerable'', ''toString'', ''valueOf'', ''__proto__'',
      ''toLocaleString'']"

definition get :: "row \<Rightarrow> jstring \<Rightarrow> jsval" where
  "get r k =
     (case map_of r k of
        Some v \<Rightarrow> v
      | None \<Rightarrow> if k \<in> set (map lit Object_prototype_names) then Member k else Undefined)"

section \<open>Schema inference (generic mode)\<close>

text \<open>\<^verbatim>\<open>extractDimensions\<close>, \<^verbatim>\<open>src/script.js\<close> lines 16-20.\<close>

definition extractDimensions :: "row list \<Rightarrow> jstring list" where
  "extractDimensions data = (case data of [] \<Rightarrow> [] | first # _ \<Rightarrow> map fst first)"

datatype coltype = Numeric | Nominal

text \<open>
  \<^verbatim>\<open>types[dim] = label\<close> on the plain object \<^verbatim>\<open>types = {}\<close>: the name \<^verbatim>\<open>__proto__\<close> is the
  accessor of \<^verbatim>\<open>Object.prototype\<close>, whose setter ignores a string, so no label is stored
  under that name. Every other name becomes an own property. Reading \<^verbatim>\<open>types[dim]\<close> is
  only ever compared with \<^verbatim>\<open>"numeric"\<close>; a name with no label (\<open>None\<close>) reads as
  \<^verbatim>\<open>undefined\<close> or as an inherited member, which is not \<^verbatim>\<open>"numeric"\<close> either.
\<close>

definition assign_label ::
  "(jstring \<rightharpoonup> coltype) \<Rightarrow> jstring \<Rightarrow> coltype \<Rightarrow> (jstring \<rightharpoonup> coltype)" where
  "assign_label types k label = (if k = lit ''__proto__'' then types else types(k \<mapsto> label))"

text \<open>
  \<^verbatim>\<open>detectDataTypes\<close>, \<^verbatim>\<open>src/script.js\<close> lines 31-52: \<open>isNumeric\<close> is the test of lines
  41-46 on the collected values, the function itself the loop over \<^verbatim>\<open>dimensions\<close>.
\<close>

definition isNumeric :: "builtins \<Rightarrow> jsval list \<Rightarrow> bool" where
  "isNumeric B vals =
     (length vals > 0 \<and>
      list_all (\<lambda>v. let num = ToNumber B v in \<not> isNaN num \<and> isFinite num) vals)"

definition detectDataTypes ::
  "builtins \<Rightarrow> row list \<Rightarrow> jstring list \<Rightarrow> (jstring \<rightharpoonup> coltype)" where
  "detectDataTypes B data dims =
     foldl (\<lambda>types dm.
              (let vals = filter (\<lambda>v. v \<noteq> Undefined \<and> v \<noteq> Null) (map (\<lambda>d. get d dm) data)
               in assign_label types dm (if isNumeric B vals then Numeric else Nominal)))
           Map.empty dims"

text \<open>\<^verbatim>\<open>getLineColor\<close>, the same text in both files.\<close>

definition getLineColor :: "row \<Rightarrow> string" where
  "getLineColor d =
     (if get d (lit ''gender'') = Str (lit ''M'') then ''#1f77b4''
      else if get d (lit ''gender'') = Str (lit ''F'') then ''#ff7f0e''
      else ''#999'')"

section \<open>Layout\<close>

text \<open>
  \<^verbatim>\<open>drawVisualization\<close> is the same text in both files from its third line on
  (\<^verbatim>\<open>src/script.js\<close> lines 117-376, \<^verbatim>\<open>src/unnamed/part_000\<close> lines 76-297); the two
  files differ in where \<^verbatim>\<open>dims\<close> and \<^verbatim>\<open>types\<close> come from. The definitions of this and
  the next three sections follow that common text.

  \<^verbatim>\<open>const margin = { top: 50, right: 180, bottom: 20, left: 180 }\<close>; the container's
  \<^verbatim>\<open>clientWidth\<close> is an integer the browser reports.
\<close>

definition margin_top :: int where "margin_top = 50"
definition margin_right :: int where "margin_right = 180"
definition margin_bottom :: int where "margin_bottom = 20"
definition margin_left :: int where "margin_left = 180"

definition containerWidth :: "int \<Rightarrow> int" where
  "containerWidth clientWidth = clientWidth - 40"

definition width :: "int \<Rightarrow> nat \<Rightarrow> int" where
  "width clientWidth ndims =
     max (containerWidth clientWidth - margin_left - margin_right) (int ndims * 100)"

definition height :: "nat \<Rightarrow> int" where
  "height nrecords = max 400 (min 600 (\<lceil>real nrecords / 15\<rceil> * 1)) + 200"

text \<open>\<^verbatim>\<open>(width / (dims.length - 1)) * i\<close>, computed once per axis and once per vertex.\<close>

definition xPosition :: "int \<Rightarrow> nat \<Rightarrow> nat \<Rightarrow> jsnum" where
  "xPosition w ndims i =
     js_mul (js_div (Fin (real_of_int w)) (Fin (real_of_int (int ndims - 1)))) (Fin (real i))"

section \<open>Scales\<close>

text \<open>
  Modelled from the spec: the scales are built by the D3 library (\<^verbatim>\<open>d3.scaleLinear\<close>,
  \<^verbatim>\<open>d3.scalePoint\<close>), which is not under \<^verbatim>\<open>src/\<close>. The spec describes a numeric scale as
  the affine map from [min, max] to [height, 0] that degenerates to a constant position when
  min = max, and a categorical scale as evenly spaced positions with a single value at the
  midpoint. The definitions below follow the library's published algorithm (d3-scale:
  \<^verbatim>\<open>normalize\<close>, \<^verbatim>\<open>bimap\<close> and \<^verbatim>\<open>interpolateNumber\<close> for the linear scale, the band scale's
  \<^verbatim>\<open>rescale\<close> with \<^verbatim>\<open>paddingInner = 1\<close> for the point scale), which is what those words
  describe.

  A scale is its domain and its range; the range is always \<^verbatim>\<open>[height, 0]\<close> in this program.
\<close>

datatype scale =
    LinearScale jsnum jsnum real real
  | PointScale "jsval list" real real

text \<open>
  \<^verbatim>\<open>normalize(a, b)\<close>: \<^verbatim>\<open>(b -= a) ? x => (x - a) / b : constant(isNaN(b) ? NaN : 0.5)\<close>.
\<close>

definition normalize :: "jsnum \<Rightarrow> jsnum \<Rightarrow> jsnum \<Rightarrow> jsnum" where
  "normalize a b x =
     (let b' = js_sub b a
      in if truthy_num b' then js_div (js_sub x a) b'
         else if isNaN b' then NaN else Fin 0.5)"

text \<open>\<^verbatim>\<open>interpolateNumber(a, b)\<close>: \<^verbatim>\<open>t => a * (1 - t) + b * t\<close>.\<close>

definition interpolateNumber :: "real \<Rightarrow> real \<Rightarrow> jsnum \<Rightarrow> jsnum" where
  "interpolateNumber a b t =
     js_add (js_mul (Fin a) (js_sub (Fin 1) t)) (js_mul (Fin b) t)"

text \<open>\<^verbatim>\<open>bimap\<close>: a descending domain is turned around together with the range.\<close>

definition bimap :: "jsnum \<Rightarrow> jsnum \<Rightarrow> real \<Rightarrow> real \<Rightarrow> jsnum \<Rightarrow> jsnum" where
  "bimap d0 d1 r0 r1 x =
     (if js_lt d1 d0 then interpolateNumber r1 r0 (normalize d1 d0 x)
      else interpolateNumber r0 r1 (normalize d0 d1 x))"

text \<open>
  The point scale's positions, \<^verbatim>\<open>rescale\<close> of the band scale with \<^verbatim>\<open>paddingInner = 1\<close>,
  \<^verbatim>\<open>paddingOuter = 0\<close>, \<^verbatim>\<open>align = 0.5\<close> and no rounding.
\<close>

definition point_values :: "nat \<Rightarrow> real \<Rightarrow> real \<Rightarrow> real list" where
  "point_values n r0 r1 =
     (let reverse = (r1 < r0);
          start = (if reverse then r1 else r0);
          stop = (if reverse then r0 else r1);
          step = (stop - start) / max 1 (real n - 1 + 0 * 2);
          start' = start + (stop - start - step * (real n - 1)) * 0.5;
          values = map (\<lambda>i. start' + step * real i) [0..<n]
      in if reverse then rev values else values)"

text \<open>
  The values of a list without repetition, in order of first occurrence: what
  \<^verbatim>\<open>[...new Set(data)]\<close> holds, and what an ordinal scale keeps of the domain it is given.
\<close>

definition Set_values :: "'a list \<Rightarrow> 'a list" where
  "Set_values xs = foldl (\<lambda>seen x. if x \<in> set seen then seen else seen @ [x]) [] xs"

fun index_of :: "'a \<Rightarrow> 'a list \<Rightarrow> nat option" where
  "index_of x [] = None"
| "index_of x (y # ys) = (if x = y then Some 0 else map_option Suc (index_of x ys))"

definition scaleLinear :: "jsnum \<times> jsnum \<Rightarrow> real \<times> real \<Rightarrow> scale" where
  "scaleLinear dmn rng = LinearScale (fst dmn) (snd dmn) (fst rng) (snd rng)"

definition scalePoint :: "jsval list \<Rightarrow> real \<times> real \<Rightarrow> scale" where
  "scalePoint dmn rng = PointScale (Set_values dmn) (fst rng) (snd rng)"

text \<open>
  Calling a scale. The result is \<^verbatim>\<open>undefined\<close> (\<open>None\<close>) for a linear scale applied to
  \<^verbatim>\<open>null\<close>, \<^verbatim>\<open>undefined\<close> or a value that is NaN as a number, and for a point scale applied to
  a value outside its domain.
\<close>

fun scale_apply :: "builtins \<Rightarrow> scale \<Rightarrow> jsval \<Rightarrow> jsnum option" where
  "scale_apply B (LinearScale d0 d1 r0 r1) v =
     (if v = Undefined \<or> v = Null \<or> isNaN (ToNumber B v) then None
      else Some (bimap d0 d1 r0 r1 (ToNumber B v)))"
| "scale_apply B (PointScale dmn r0 r1) v =
     (case index_of v dmn of
        None \<Rightarrow> None
      | Some i \<Rightarrow>
          (let rng = point_values (length dmn) r0 r1
           in Some (Fin (rng ! (i mod length rng)))))"

text \<open>\<^verbatim>\<open>scale.domain()\<close>.\<close>

fun domain :: "scale \<Rightarrow> jsval list" where
  "domain (LinearScale d0 d1 r0 r1) = [Num d0, Num d1]"
| "domain (PointScale dmn r0 r1) = dmn"

text \<open>
  The default \<^verbatim>\<open>sort()\<close>: stable, comparing the string forms of the elements by their
  UTF-16 code units (the order of \<open>jstring\<close>).
\<close>

definition js_sort :: "builtins \<Rightarrow> jsval list \<Rightarrow> jsval list" where
  "js_sort B xs = sort_key (ToString B) xs"

text \<open>
  The body of the first \<^verbatim>\<open>dims.forEach\<close> (\<^verbatim>\<open>src/script.js\<close> lines 152-174,
  \<^verbatim>\<open>src/unnamed/part_000\<close> lines 107-120): the scale stored in \<^verbatim>\<open>scales[dim]\<close>. It depends on
  \<^verbatim>\<open>dim\<close> only, and the object \<^verbatim>\<open>scales\<close> is modelled as this function of the name: reading
  \<^verbatim>\<open>scales[dim]\<close> gives the scale assigned under \<^verbatim>\<open>dim\<close>. (For the name \<^verbatim>\<open>__proto__\<close> the
  assignment makes the scale, a function object, the prototype of \<^verbatim>\<open>scales\<close>, and reading
  \<^verbatim>\<open>scales["__proto__"]\<close> gives that prototype back. The model leaves out what such a
  prototype does to a later assignment under a name that function objects hold read-only
  or behind an accessor, \<^verbatim>\<open>length\<close>, \<^verbatim>\<open>name\<close>, \<^verbatim>\<open>caller\<close> and \<^verbatim>\<open>arguments\<close>; the dimension
  lists of the static tables hold none of these names.)
\<close>

definition buildScale ::
  "builtins \<Rightarrow> row list \<Rightarrow> (jstring \<rightharpoonup> coltype) \<Rightarrow> int \<Rightarrow> jstring \<Rightarrow> scale" where
  "buildScale B currentData types h dm =
     (let data = filter (\<lambda>d. d \<noteq> Undefined \<and> d \<noteq> Null) (map (\<lambda>d. get d dm) currentData)
      in if types dm = Some Numeric then
           (let mn = Math_min (map (ToNumber B) data);
                mx = Math_max (map (ToNumber B) data)
            in scaleLinear (mn, mx) (real_of_int h, 0))
         else
           (let uniqueValues = js_sort B (Set_values data)
            in scalePoint uniqueValues (real_of_int h, 0)))"

section \<open>Rendered elements\<close>

text \<open>
  What the program appends to the SVG group: an element is its tag and the \<^verbatim>\<open>.attr\<close>,
  \<^verbatim>\<open>.style\<close> and \<^verbatim>\<open>.text\<close> calls made on it, in order. The value of an attribute is kept
  as the JavaScript value handed to D3; a path's \<^verbatim>\<open>d\<close> is kept as its list of commands
  (\<^verbatim>\<open>M\<close> or \<^verbatim>\<open>L\<close>, x, y) and a tick's text \<^verbatim>\<open>tick.toFixed(2)\<close> as the number it prints.
\<close>

datatype aval =
    ANum jsnum
  | AUndefined
  | AStr string
  | APath "(string \<times> jsnum \<times> jsnum option) list"

datatype content = Lit jstring | Fixed2 jsnum | Records nat

datatype setter = Attr string aval | Style string aval | Text content

datatype node = Node string "setter list"

fun apos :: "jsnum option \<Rightarrow> aval" where
  "apos None = AUndefined"
| "apos (Some y) = ANum y"

text \<open>A position used as a number: \<^verbatim>\<open>undefined + 4\<close> is NaN.\<close>

fun pos_num :: "jsnum option \<Rightarrow> jsnum" where
  "pos_num None = NaN"
| "pos_num (Some y) = y"

text \<open>The tick mark and the tick label drawn at \<^verbatim>\<open>yPosition\<close>, the same calls in both branches.\<close>

definition tickNodes :: "jsnum \<Rightarrow> jsnum option \<Rightarrow> content \<Rightarrow> node list" where
  "tickNodes xPos yPosition label =
     [Node ''line''
        [Attr ''x1'' (ANum (js_sub xPos (Fin 5))),
         Attr ''x2'' (ANum (js_add xPos (Fin 5))),
         Attr ''y1'' (apos yPosition),
         Attr ''y2'' (apos yPosition),
         Style ''stroke'' (AStr ''#999''),
         Style ''stroke-width'' (ANum (Fin 1))],
      Node ''text''
        [Attr ''class'' (AStr ''axis-tick''),
         Attr ''x'' (ANum (js_sub xPos (Fin 12))),
         Attr ''y'' (ANum (js_add (pos_num yPosition) (Fin 4))),
         Attr ''text-anchor'' (AStr ''end''),
         Text label]]"

text \<open>
  The five ticks of a numeric axis, from \<^verbatim>\<open>const [min, max] = scale.domain()\<close>. A numeric
  dimension has a linear scale (\<open>buildScale\<close> tests the same \<^verbatim>\<open>types[dim]\<close>), so the second
  equation is never used.
\<close>

fun numericTicks :: "scale \<Rightarrow> jsnum list" where
  "numericTicks (LinearScale mn mx r0 r1) =
     [mn,
      js_add mn (js_mul (js_sub mx mn) (Fin 0.25)),
      js_add mn (js_mul (js_sub mx mn) (Fin 0.5)),
      js_add mn (js_mul (js_sub mx mn) (Fin 0.75)),
      mx]"
| "numericTicks (PointScale dmn r0 r1) = []"

text \<open>
  The body of the second \<^verbatim>\<open>dims.forEach\<close> (\<^verbatim>\<open>src/script.js\<close> lines 178-276,
  \<^verbatim>\<open>src/unnamed/part_000\<close> lines 123-209): the axis of dimension \<^verbatim>\<open>dim\<close> at index \<^verbatim>\<open>i\<close>.
\<close>

definition drawAxis ::
  "builtins \<Rightarrow> (jstring \<rightharpoonup> coltype) \<Rightarrow> (jstring \<Rightarrow> scale) \<Rightarrow> int \<Rightarrow> int \<Rightarrow> nat \<Rightarrow> nat \<times> jstring \<Rightarrow> node list" where
  "drawAxis B types scales w h ndims idm =
     (let i = fst idm; dm = snd idm;
          xPos = xPosition w ndims i;
          scale = scales dm;
          type = types dm
      in [Node ''line''
            [Attr ''class'' (AStr ''axis-line''),
             Attr ''x1'' (ANum xPos),
             Attr ''x2'' (ANum xPos),
             Attr ''y1'' (ANum (Fin 0)),
             Attr ''y2'' (ANum (Fin (real_of_int h))),
             Style ''stroke'' (AStr ''#ccc''),
             Style ''stroke-width'' (ANum (Fin 1))],
          Node ''text''
            [Attr ''class'' (AStr ''axis-label''),
             Attr ''x'' (ANum xPos),
             Attr ''y'' (ANum (Fin (- 20))),
             Attr ''text-anchor'' (AStr ''middle''),
             Text (Lit dm)]]
         @ (if type = Some Numeric then
              concat (map (\<lambda>tick. tickNodes xPos (scale_apply B scale (Num tick)) (Fixed2 tick))
                          (numericTicks scale))
            else
              concat (map (\<lambda>v. tickNodes xPos (scale_apply B scale v) (Lit (ToString B v)))
                          (domain scale))))"

text \<open>
  The vertices of one record (\<^verbatim>\<open>src/script.js\<close> lines 283-297, \<^verbatim>\<open>src/unnamed/part_000\<close>
  lines 213-223): \<^verbatim>\<open>points.push([xPosition, yPosition])\<close> for each dimension whose value is
  neither \<^verbatim>\<open>undefined\<close> nor \<^verbatim>\<open>null\<close>.
\<close>

definition linePoints ::
  "builtins \<Rightarrow> (jstring \<Rightarrow> scale) \<Rightarrow> int \<Rightarrow> jstring list \<Rightarrow> row \<Rightarrow> (jsnum \<times> jsnum option) list" where
  "linePoints B scales w dims r =
     foldl (\<lambda>points idm.
              (let i = fst idm; dm = snd idm;
                   xPos = xPosition w (length dims) i;
                   v = get r dm
               in if v \<noteq> Undefined \<and> v \<noteq> Null
                  then points @ [(xPos, scale_apply B (scales dm) v)]
                  else points))
           [] (enumerate 0 dims)"

text \<open>The path data: \<^verbatim>\<open>M\<close> for the first point, \<^verbatim>\<open>L\<close> for the others.\<close>

definition pathData :: "(jsnum \<times> jsnum option) list \<Rightarrow> (string \<times> jsnum \<times> jsnum option) list" where
  "pathData points =
     map (\<lambda>ip. (if fst ip = 0 then ''M'' else ''L'', fst (snd ip), snd (snd ip)))
         (enumerate 0 points)"

text \<open>
  The body of \<^verbatim>\<open>currentData.forEach\<close> (\<^verbatim>\<open>src/script.js\<close> lines 282-313,
  \<^verbatim>\<open>src/unnamed/part_000\<close> lines 212-237): the path of one record, if it has one.
\<close>

definition drawLine ::
  "builtins \<Rightarrow> (jstring \<Rightarrow> scale) \<Rightarrow> int \<Rightarrow> jstring list \<Rightarrow> row \<Rightarrow> node list" where
  "drawLine B scales w dims r =
     (let points = linePoints B scales w dims r
      in if length points > 1 then
           [Node ''path''
              [Attr ''class'' (AStr ''line''),
               Attr ''d'' (APath (pathData points)),
               Style ''stroke'' (AStr (getLineColor r))]]
         else [])"

text \<open>The legend and the record count, \<^verbatim>\<open>src/script.js\<close> lines 319-376.\<close>

definition legend :: "int \<Rightarrow> int \<Rightarrow> nat \<Rightarrow> node list" where
  "legend w h nrecords =
     [Node ''rect''
        [Attr ''x'' (ANum (Fin (real_of_int (w + 20)))),
         Attr ''y'' (ANum (Fin (- 30))),
         Attr ''width'' (ANum (Fin 150)),
         Attr ''height'' (ANum (Fin 80)),
         Style ''fill'' (AStr ''white''),
         Style ''stroke'' (AStr ''#ccc''),
         Style ''stroke-width'' (ANum (Fin 1))],
      Node ''text''
        [Attr ''x'' (ANum (Fin (real_of_int (w + 30)))),
         Attr ''y'' (ANum (Fin (- 10))),
         Style ''font-weight'' (AStr ''bold''),
         Style ''font-size'' (AStr ''12px''),
         Text (Lit (lit ''Legend:''))],
      Node ''line''
        [Attr ''x1'' (ANum (Fin (real_of_int (w + 30)))),
         Attr ''x2'' (ANum (Fin (real_of_int (w + 50)))),
         Attr ''y1'' (ANum (Fin 5)),
         Attr ''y2'' (ANum (Fin 5)),
         Style ''stroke'' (AStr ''#1f77b4''),
         Style ''stroke-width'' (ANum (Fin 2))],
      Node ''text''
        [Attr ''x'' (ANum (Fin (real_of_int (w + 60)))),
         Attr ''y'' (ANum (Fin 10)),
         Style ''font-size'' (AStr ''12px''),
         Text (Lit (lit ''Male''))],
      Node ''line''
        [Attr ''x1'' (ANum (Fin (real_of_int (w + 30)))),
         Attr ''x2'' (ANum (Fin (real_of_int (w + 50)))),
         Attr ''y1'' (ANum (Fin 30)),
         Attr ''y2'' (ANum (Fin 30)),
         Style ''stroke'' (AStr ''#ff7f0e''),
         Style ''stroke-width'' (ANum (Fin 2))],
      Node ''text''
        [Attr ''x'' (ANum (Fin (real_of_int (w + 60)))),
         Attr ''y'' (ANum (Fin 35)),
         Style ''font-size'' (AStr ''12px''),
         Text (Lit (lit ''Female''))],
      Node ''text''
        [Attr ''x'' (ANum (Fin (real_of_int (w + 20)))),
         Attr ''y'' (ANum (Fin (real_of_int (h - 20)))),
         Style ''font-size'' (AStr ''11px''),
         Style ''fill'' (AStr ''#666''),
         Text (Records nrecords)]]"

text \<open>
  The SVG element: its \<^verbatim>\<open>width\<close> and \<^verbatim>\<open>height\<close> (the \<^verbatim>\<open>viewBox\<close> is
  \<^verbatim>\<open>0 0 width height\<close> of the same two numbers), the translation of its group and the
  elements appended to the group, in order.
\<close>

record svg =
  svgWidth :: int
  svgHeight :: int
  translate :: "int \<times> int"
  children :: "node list"

text \<open>
  \<^verbatim>\<open>drawVisualization\<close> after its first two lines, given \<^verbatim>\<open>dims\<close>, \<^verbatim>\<open>types\<close>,
  \<^verbatim>\<open>currentData\<close> and the container's \<^verbatim>\<open>clientWidth\<close>.
\<close>

definition render ::
  "builtins \<Rightarrow> int \<Rightarrow> jstring list \<Rightarrow> (jstring \<rightharpoonup> coltype) \<Rightarrow> row list \<Rightarrow> svg" where
  "render B clientWidth dims types currentData =
     (let w = width clientWidth (length dims);
          h = height (length currentData);
          scales = buildScale B currentData types h
      in \<lparr> svgWidth = w + margin_left + margin_right,
           svgHeight = h + margin_top + margin_bottom,
           translate = (margin_left, margin_top),
           children =
             concat (map (drawAxis B types scales w h (length dims)) (enumerate 0 dims))
             @ concat (map (drawLine B scales w dims) currentData)
             @ legend w h (length currentData) \<rparr>)"

section \<open>Page state, drawing and loading\<close>

text \<open>
  The content of the \<^verbatim>\<open>#visualization\<close> element: markup assigned to \<^verbatim>\<open>innerHTML\<close>, or the
  chart appended after \<^verbatim>\<open>innerHTML = ""\<close>.
\<close>

datatype container = Html string | Chart svg

text \<open>
  The globals of \<^verbatim>\<open>src/unnamed/part_000\<close> with the container, and the two more globals of
  \<^verbatim>\<open>src/script.js\<close>. \<^verbatim>\<open>currentDataset\<close> is \<^verbatim>\<open>null\<close> (\<open>None\<close>) or the year handed to
  \<^verbatim>\<open>loadDataset\<close>.
\<close>

record page =
  currentDataset :: "nat option"
  currentData :: "row list"
  visualization :: container

record state = page +
  currentDimensions :: "jstring list"
  currentDataTypes :: "jstring \<rightharpoonup> coltype"

datatype error = TypeError | NetworkError | SyntaxError

text \<open>
  A function that may throw returns \<open>Inl\<close> of the error and of the state at the throw
  (assignments made before the throw stay), or \<open>Inr\<close> of the state at its return.
\<close>

text \<open>\<^verbatim>\<open>drawVisualization\<close> of \<^verbatim>\<open>src/script.js\<close>, lines 111-377.\<close>

definition drawVisualization :: "builtins \<Rightarrow> int \<Rightarrow> state \<Rightarrow> state" where
  "drawVisualization B clientWidth st =
     (let dims = currentDimensions st;
          types = currentDataTypes st
      in st\<lparr>visualization := Chart (render B clientWidth dims types (currentData st))\<rparr>)"

text \<open>The tables \<^verbatim>\<open>dimensions\<close> and \<^verbatim>\<open>dataTypes\<close> of \<^verbatim>\<open>src/unnamed/part_000\<close>, lines 7-48.\<close>

definition dimensions :: "nat \<Rightarrow> jstring list option" where
  "dimensions year =
     (if year = 2012 then
        Some (map lit [''gpa'', ''credits_attempted'', ''credits_passed'', ''current_credits'',
                       ''age'', ''gender''])
      else if year = 2019 then
        Some (map lit [''gender'', ''age_range'', ''credits_attempted'', ''credits_passed'',
                       ''gpa'', ''grad_year'', ''home'', ''major''])
      else None)"

definition dataTypes_2012 :: "jstring \<rightharpoonup> coltype" where
  "dataTypes_2012 =
     [lit ''gpa'' \<mapsto> Numeric, lit ''credits_attempted'' \<mapsto> Numeric,
      lit ''credits_passed'' \<mapsto> Numeric, lit ''current_credits'' \<mapsto> Numeric,
      lit ''age'' \<mapsto> Numeric, lit ''gender'' \<mapsto> Nominal]"

definition dataTypes_2019 :: "jstring \<rightharpoonup> coltype" where
  "dataTypes_2019 =
     [lit ''gender'' \<mapsto> Nominal, lit ''age_range'' \<mapsto> Nominal,
      lit ''credits_attempted'' \<mapsto> Numeric, lit ''credits_passed'' \<mapsto> Numeric,
      lit ''gpa'' \<mapsto> Numeric, lit ''grad_year'' \<mapsto> Numeric, lit ''home'' \<mapsto> Nominal,
      lit ''major'' \<mapsto> Nominal]"

definition dataTypes :: "nat \<Rightarrow> (jstring \<rightharpoonup> coltype) option" where
  "dataTypes year =
     (if year = 2012 then Some dataTypes_2012
      else if year = 2019 then Some dataTypes_2019
      else None)"

text \<open>
  \<^verbatim>\<open>drawVisualization\<close> of \<^verbatim>\<open>src/unnamed/part_000\<close>, lines 72-298. For a
  \<^verbatim>\<open>currentDataset\<close> that is not a key of the tables \<^verbatim>\<open>dims\<close> is \<^verbatim>\<open>undefined\<close>, and
  \<^verbatim>\<open>dims.length\<close> throws after the container has been cleared.
\<close>

definition drawVisualization_static :: "builtins \<Rightarrow> int \<Rightarrow> page \<Rightarrow> (error \<times> page) + page" where
  "drawVisualization_static B clientWidth pg =
     (let dims = (case currentDataset pg of None \<Rightarrow> None | Some year \<Rightarrow> dimensions year);
          types = (case currentDataset pg of None \<Rightarrow> None | Some year \<Rightarrow> dataTypes year)
      in case (dims, types) of
           (Some ds, Some ts) \<Rightarrow>
             Inr (pg\<lparr>visualization := Chart (render B clientWidth ds ts (currentData pg))\<rparr>)
         | _ \<Rightarrow> Inl (TypeError, pg\<lparr>visualization := Html []\<rparr>))"

text \<open>
  What \<^verbatim>\<open>await fetch(...)\<close> followed by \<^verbatim>\<open>await response.json()\<close> gives: the first promise
  rejects, the second rejects, or the document is parsed into the records.
\<close>

datatype response = FetchRejected | JsonRejected | Json "row list"

definition errorHtml :: string where
  \<open>errorHtml = ''<p style="color: red;">Error loading dataset</p>''\<close>

text \<open>
  \<^verbatim>\<open>loadDataset\<close> of \<^verbatim>\<open>src/script.js\<close>, lines 79-98: the \<^verbatim>\<open>try\<close> block, then the whole
  function with its \<^verbatim>\<open>catch\<close>. The message written to the console is not modelled.
\<close>

definition loadDataset_try ::
  "builtins \<Rightarrow> int \<Rightarrow> nat \<Rightarrow> response \<Rightarrow> state \<Rightarrow> (error \<times> state) + state" where
  "loadDataset_try B clientWidth year resp st =
     (case resp of
        FetchRejected \<Rightarrow> Inl (NetworkError, st)
      | JsonRejected \<Rightarrow> Inl (SyntaxError, st)
      | Json data \<Rightarrow>
          (let st1 = st\<lparr>currentData := data\<rparr>;
               st2 = st1\<lparr>currentDataset := Some year\<rparr>;
               st3 = st2\<lparr>currentDimensions := extractDimensions (currentData st2)\<rparr>;
               st4 = st3\<lparr>currentDataTypes :=
                         detectDataTypes B (currentData st3) (currentDimensions st3)\<rparr>
           in Inr (drawVisualization B clientWidth st4)))"

definition loadDataset ::
  "builtins \<Rightarrow> int \<Rightarrow> nat \<Rightarrow> response \<Rightarrow> state \<Rightarrow> (error \<times> state) + state" where
  "loadDataset B clientWidth year resp st =
     (case loadDataset_try B clientWidth year resp st of
        Inr st' \<Rightarrow> Inr st'
      | Inl (e, st') \<Rightarrow> Inr (st'\<lparr>visualization := Html errorHtml\<rparr>))"

text \<open>\<^verbatim>\<open>loadDataset\<close> of \<^verbatim>\<open>src/unnamed/part_000\<close>, lines 58-69.\<close>

definition loadDataset_static_try ::
  "builtins \<Rightarrow> int \<Rightarrow> nat \<Rightarrow> response \<Rightarrow> page \<Rightarrow> (error \<times> page) + page" where
  "loadDataset_static_try B clientWidth year resp pg =
     (case resp of
        FetchRejected \<Rightarrow> Inl (NetworkError, pg)
      | JsonRejected \<Rightarrow> Inl (SyntaxError, pg)
      | Json data \<Rightarrow>
          (let pg1 = pg\<lparr>currentData := data\<rparr>;
               pg2 = pg1\<lparr>currentDataset := Some year\<rparr>
           in drawVisualization_static B clientWidth pg2))"

definition loadDataset_static ::
  "builtins \<Rightarrow> int \<Rightarrow> nat \<Rightarrow> response \<Rightarrow> page \<Rightarrow> (error \<times> page) + page" where
  "loadDataset_static B clientWidth year resp pg =
     (case loadDataset_static_try B clientWidth year resp pg of
        Inr pg' \<Rightarrow> Inr pg'
      | Inl (e, pg') \<Rightarrow> Inr (pg'\<lparr>visualization := Html errorHtml\<rparr>))"

section \<open>The resize handler\<close>

text \<open>
  The handler is the same text in both files (\<^verbatim>\<open>src/script.js\<close> lines 405-413,
  \<^verbatim>\<open>src/unnamed/part_000\<close> lines 318-326). Time is counted in milliseconds. The window holds
  the page's globals, the variable \<^verbatim>\<open>resizeTimeout\<close> (\<^verbatim>\<open>undefined\<close>, or the handle of the
  timer set last), the browser's pending timers, each with its handle and its deadline,
  the next handle to give out, and, for stating properties, the log of the redraws made by
  timer callbacks: the time of each and the \<^verbatim>\<open>clientWidth\<close> it read. A timer is taken to
  run at its deadline.
\<close>

record 's window =
  globals :: 's
  resizeTimeout :: "nat option"
  timers :: "(nat \<times> nat) list"
  next_handle :: nat
  redraws :: "(nat \<times> int) list"

text \<open>
  \<^verbatim>\<open>setTimeout(callback, delay)\<close> at time \<open>now\<close> adds a pending timer and returns its
  handle; \<^verbatim>\<open>clearTimeout(handle)\<close> removes the pending timer of that handle, if there is
  one, and nothing else (\<^verbatim>\<open>clearTimeout(undefined)\<close> removes nothing).
\<close>

definition setTimeout :: "nat \<Rightarrow> nat \<Rightarrow> 's window \<Rightarrow> nat \<times> 's window" where
  "setTimeout delay now win =
     (next_handle win,
      win\<lparr>timers := timers win @ [(next_handle win, now + delay)],
          next_handle := Suc (next_handle win)\<rparr>)"

definition clearTimeout :: "nat option \<Rightarrow> 's window \<Rightarrow> 's window" where
  "clearTimeout handle win =
     win\<lparr>timers := filter (\<lambda>tm. Some (fst tm) \<noteq> handle) (timers win)\<rparr>"

text \<open>\<^verbatim>\<open>if (currentDataset)\<close>: \<^verbatim>\<open>null\<close> and the number 0 are falsy.\<close>

definition loaded :: "nat option \<Rightarrow> bool" where
  "loaded d = (case d of None \<Rightarrow> False | Some year \<Rightarrow> year \<noteq> 0)"

text \<open>
  The timer's callback at time \<open>t\<close>; \<open>draw\<close> is the mode's \<^verbatim>\<open>drawVisualization\<close> and
  \<open>cw\<close> gives the container's \<^verbatim>\<open>clientWidth\<close> at each time.
\<close>

definition callback ::
  "(int \<Rightarrow> 's \<Rightarrow> 's) \<Rightarrow> ('s \<Rightarrow> nat option) \<Rightarrow> (nat \<Rightarrow> int) \<Rightarrow> nat \<Rightarrow> 's window \<Rightarrow> 's window" where
  "callback draw dataset cw t win =
     (if loaded (dataset (globals win))
      then win\<lparr>globals := draw (cw t) (globals win), redraws := redraws win @ [(t, cw t)]\<rparr>
      else win)"

text \<open>
  The handler at time \<open>t\<close>: \<^verbatim>\<open>clearTimeout(resizeTimeout)\<close>, then
  \<^verbatim>\<open>resizeTimeout = setTimeout(..., 250)\<close>.
\<close>

definition onResize :: "nat \<Rightarrow> 's window \<Rightarrow> 's window" where
  "onResize t win =
     (let win1 = clearTimeout (resizeTimeout win) win;
          tmr = setTimeout 250 t win1
      in (snd tmr)\<lparr>resizeTimeout := Some (fst tmr)\<rparr>)"

text \<open>
  Running the given timers, each at its deadline, in the order given. (The callback sets no
  timer.)
\<close>

definition run_timers ::
  "(int \<Rightarrow> 's \<Rightarrow> 's) \<Rightarrow> ('s \<Rightarrow> nat option) \<Rightarrow> (nat \<Rightarrow> int) \<Rightarrow> (nat \<times> nat) list \<Rightarrow> 's window
     \<Rightarrow> 's window" where
  "run_timers draw dataset cw due win =
     foldl (\<lambda>w tm. callback draw dataset cw (snd tm) w) win due"

text \<open>
  Letting time pass until \<open>t\<close>: the pending timers whose deadline has come run, earliest
  deadline first, and are no longer pending.
\<close>

definition elapse ::
  "(int \<Rightarrow> 's \<Rightarrow> 's) \<Rightarrow> ('s \<Rightarrow> nat option) \<Rightarrow> (nat \<Rightarrow> int) \<Rightarrow> nat \<Rightarrow> 's window \<Rightarrow> 's window" where
  "elapse draw dataset cw t win =
     (let due = sort_key snd (filter (\<lambda>tm. snd tm \<le> t) (timers win));
          later = filter (\<lambda>tm. \<not> snd tm \<le> t) (timers win)
      in run_timers draw dataset cw due (win\<lparr>timers := later\<rparr>))"

text \<open>Resize events at the given times, in order.\<close>

fun resizes ::
  "(int \<Rightarrow> 's \<Rightarrow> 's) \<Rightarrow> ('s \<Rightarrow> nat option) \<Rightarrow> (nat \<Rightarrow> int) \<Rightarrow> nat list \<Rightarrow> 's window \<Rightarrow> 's window" where
  "resizes draw dataset cw [] win = win"
| "resizes draw dataset cw (t # ts) win =
     resizes draw dataset cw ts (onResize t (elapse draw dataset cw t win))"

text \<open>Quiet from then on: every pending timer runs, earliest deadline first.\<close>

definition settle ::
  "(int \<Rightarrow> 's \<Rightarrow> 's) \<Rightarrow> ('s \<Rightarrow> nat option) \<Rightarrow> (nat \<Rightarrow> int) \<Rightarrow> 's window \<Rightarrow> 's window" where
  "settle draw dataset cw win =
     run_timers draw dataset cw (sort_key snd (timers win)) (win\<lparr>timers := []\<rparr>)"

text \<open>
  A burst: the times do not decrease, and each gap between consecutive events is shorter
  than the 250 ms of the timer.
\<close>

fun burst :: "nat list \<Rightarrow> bool" where
  "burst [] = True"
| "burst [t] = True"
| "burst (t # u # ts) = (t \<le> u \<and> u < t + 250 \<and> burst (u # ts))"

text \<open>
  The callback's \<^verbatim>\<open>drawVisualization()\<close> in the static mode: an exception thrown in a timer
  callback is reported by the browser and the assignments made before it stay.
\<close>

definition redraw_static :: "builtins \<Rightarrow> int \<Rightarrow> page \<Rightarrow> page" where
  "redraw_static B clientWidth pg =
     (case drawVisualization_static B clientWidth pg of
        Inr pg' \<Rightarrow> pg'
      | Inl (e, pg') \<Rightarrow> pg')"

section \<open>Auxiliary definitions and example inputs\<close>

text \<open>The value of a finite number, and the values of a list of finite numbers.\<close>

fun the_Fin :: "jsnum \<Rightarrow> real" where
  "the_Fin (Fin a) = a"
| "the_Fin _ = 0"

definition finite_values :: "builtins \<Rightarrow> jsval list \<Rightarrow> real list" where
  "finite_values B vals = map (\<lambda>v. the_Fin (ToNumber B v)) vals"

text \<open>
  The conversions as far as the examples below need them: no string of the examples reads
  as a number (\<^verbatim>\<open>Number("x")\<close> is NaN, and so is the text of a function), no number of the
  examples is printed, a built-in function prints as \<^verbatim>\<open>function name() { [native code] }\<close>
  (\<^verbatim>\<open>constructor\<close> is the function \<^verbatim>\<open>Object\<close>), and \<^verbatim>\<open>Object.prototype\<close> itself as
  \<^verbatim>\<open>[object Object]\<close>.
\<close>

definition example_builtins :: builtins where
  "example_builtins =
     \<lparr> StringToNumber = (\<lambda>s. NaN),
       NumberToString = (\<lambda>a. lit ''0''),
       MemberToString =
         (\<lambda>k. if k = lit ''__proto__'' then lit ''[object Object]''
              else if k = lit ''constructor'' then lit ''function Object() { [native code] }''
              else lit ''function '' @ k @ lit ''() { [native code] }'') \<rparr>"

text \<open>The dataset \<^verbatim>\<open>[{a:1,b:"x"},{a:2,b:"y"},{a:3,b:"x"}]\<close>.\<close>

definition three_records :: "row list" where
  "three_records =
     [[(lit ''a'', Num (Fin 1)), (lit ''b'', Str (lit ''x''))],
      [(lit ''a'', Num (Fin 2)), (lit ''b'', Str (lit ''y''))],
      [(lit ''a'', Num (Fin 3)), (lit ''b'', Str (lit ''x''))]]"

definition three_records_types :: "jstring \<rightharpoonup> coltype" where
  "three_records_types = [lit ''a'' \<mapsto> Numeric, lit ''b'' \<mapsto> Nominal]"

text \<open>A page on which \<open>three_records\<close> has been loaded as dataset 2012 and drawn.\<close>

definition example_state :: state where
  "example_state =
     \<lparr> currentDataset = Some 2012,
       currentData = three_records,
       visualization =
         Chart (render example_builtins 1000 [lit ''a'', lit ''b''] three_records_types
                  three_records),
       currentDimensions = [lit ''a'', lit ''b''],
       currentDataTypes = three_records_types \<rparr>"


text \<open>The globals as the two scripts initialise them: no dataset has been loaded.\<close>

definition initial_state :: state where
  "initial_state =
     \<lparr> currentDataset = None, currentData = [], visualization = Html [],
       currentDimensions = [], currentDataTypes = Map.empty \<rparr>"

definition initial_page :: page where
  "initial_page = \<lparr> currentDataset = None, currentData = [], visualization = Html [] \<rparr>"


text \<open>
  A column with the values 2, 3 and 4; a column whose two values are both 3; and records
  for the 2012 table whose \<^verbatim>\<open>gpa\<close> values are 1 and \<^verbatim>\<open>1e999\<close>, and only \<^verbatim>\<open>1e999\<close>.
\<close>

definition values_234 :: "row list" where
  "values_234 =
     [[(lit ''v'', Num (Fin 2))], [(lit ''v'', Num (Fin 3))], [(lit ''v'', Num (Fin 4))]]"

definition constant_column :: "row list" where
  "constant_column = [[(lit ''v'', Num (Fin 3))], [(lit ''v'', Num (Fin 3))]]"

definition overflow_gpa :: "row list" where
  "overflow_gpa = [[(lit ''gpa'', Num (Fin 1))], [(lit ''gpa'', Num PInf)]]"












text \<open>
  A container that is 1000 wide until time 1200 and 800 wide from then on; a window showing
  \<open>example_state\<close> and one in which no dataset has been loaded, both with no timer pending.
\<close>

definition example_clientWidth :: "nat \<Rightarrow> int" where
  "example_clientWidth t = (if t < 1200 then 1000 else 800)"

definition example_window :: "state window" where
  "example_window =
     \<lparr> globals = example_state, resizeTimeout = None, timers = [], next_handle = 1,
       redraws = [] \<rparr>"

definition unloaded_window :: "state window" where
  "unloaded_window =
     \<lparr> globals = initial_state, resizeTimeout = None, timers = [], next_handle = 1,
       redraws = [] \<rparr>"

text \<open>Two records with the keys of the 2012 table, in its order.\<close>

definition students_2012 :: "row list" where
  "students_2012 =
     [[(lit ''gpa'', Num (Fin 3.5)), (lit ''credits_attempted'', Num (Fin 60)),
       (lit ''credits_passed'', Num (Fin 57)), (lit ''current_credits'', Num (Fin 15)),
       (lit ''age'', Num (Fin 21)), (lit ''gender'', Str (lit ''F''))],
      [(lit ''gpa'', Num (Fin 2.75)), (lit ''credits_attempted'', Num (Fin 30)),
       (lit ''credits_passed'', Num (Fin 30)), (lit ''current_credits'', Num (Fin 12)),
       (lit ''age'', Num (Fin 19)), (lit ''gender'', Str (lit ''M''))]]"

section \<open>Properties\<close>

subsection \<open>Helper lemmas\<close>

lemma lit_eq_iff [simp]: "lit a = lit b \<longleftrightarrow> a = b"
  unfolding lit_def using inj_map_eq_map [OF inj_of_char] by blast

lemma lit_Nil [simp]: "lit [] = []"
  by (simp add: lit_def)

lemma lit_le_iff [simp]: "lit a \<le> lit b \<longleftrightarrow> a \<le> b"
proof (induction a arbitrary: b)
  case Nil
  show ?case by (simp add: lit_def)
next
  case (Cons c cs)
  show ?case
  proof (cases b)
    case Nil
    then show ?thesis by (simp add: lit_def)
  next
    case (Cons d ds)
    with Cons.IH [of ds] show ?thesis
      by (simp add: lit_def less_char_def)
  qed
qed

lemma get_own: "map_of r k = Some v \<Longrightarrow> get r k = v"
  by (simp add: get_def)

lemma get_lit:
  "get r (lit s) =
     (case map_of r (lit s) of
        Some v \<Rightarrow> v
      | None \<Rightarrow> if s \<in> set Object_prototype_names then Member (lit s) else Undefined)"
  by (auto simp: get_def split: option.splits)

lemma isFinite_iff: "isFinite n \<longleftrightarrow> (\<exists>a. n = Fin a)"
  by (cases n) simp_all

lemma finite_not_NaN: "(\<not> isNaN n \<and> isFinite n) \<longleftrightarrow> isFinite n"
  by (cases n) simp_all

lemma isNumeric_iff:
  "isNumeric B vals \<longleftrightarrow> vals \<noteq> [] \<and> (\<forall>v\<in>set vals. isFinite (ToNumber B v))"
  by (simp add: isNumeric_def list_all_iff finite_not_NaN)

lemma foldl_assign_label:
  "foldl (\<lambda>m k. assign_label m k (f k)) m0 ks k' =
     (if k' \<in> set ks \<and> k' \<noteq> lit ''__proto__'' then Some (f k') else m0 k')"
  by (induction ks arbitrary: m0) (auto simp: assign_label_def)

lemma detectDataTypes_lookup:
  "detectDataTypes B data dims dm =
     (if dm \<in> set dims \<and> dm \<noteq> lit ''__proto__''
      then Some (if isNumeric B [v \<leftarrow> map (\<lambda>d. get d dm) data. v \<noteq> Undefined \<and> v \<noteq> Null]
                 then Numeric else Nominal)
      else None)"
  unfolding detectDataTypes_def Let_def
  using foldl_assign_label
    [of "\<lambda>dm. if isNumeric B [v \<leftarrow> map (\<lambda>d. get d dm) data. v \<noteq> Undefined \<and> v \<noteq> Null]
               then Numeric else Nominal" Map.empty dims dm]
  by simp

subsection \<open>Type detection\<close>


lemma three_records_a:
  "[v \<leftarrow> map (\<lambda>d. get d (lit ''a'')) three_records. v \<noteq> Undefined \<and> v \<noteq> Null]
     = [Num (Fin 1), Num (Fin 2), Num (Fin 3)]"
  by (simp add: three_records_def get_lit)

lemma three_records_b:
  "[v \<leftarrow> map (\<lambda>d. get d (lit ''b'')) three_records. v \<noteq> Undefined \<and> v \<noteq> Null]
     = [Str (lit ''x''), Str (lit ''y''), Str (lit ''x'')]"
  by (simp add: three_records_def get_lit)





subsection \<open>Loading\<close>



subsection \<open>Layout\<close>

text \<open>
  Claim C8, as amended. On every redraw the drawing width is the larger of the container's
  client width minus 40 of padding minus the left and right margins (180 each) and
  100 times the number of dimensions; the drawing height is
  \<^verbatim>\<open>max(400, min(600, ceil(recordCount / 15))) + 200\<close>, the quotient rounded up to an
  integer, and so lies between 600 and 800. The SVG element is larger by the margins.
\<close>

theorem layout_width_height:
  "width clientWidth ndims = max ((clientWidth - 40) - 180 - 180) (int ndims * 100)
   \<and> height nrecords = max 400 (min 600 \<lceil>real nrecords / 15\<rceil>) + 200
   \<and> 600 \<le> height nrecords \<and> height nrecords \<le> 800
   \<and> svgWidth (render B clientWidth dims types data)
        = width clientWidth (length dims) + 180 + 180
   \<and> svgHeight (render B clientWidth dims types data) = height (length data) + 50 + 20"
  by (simp add: width_def containerWidth_def height_def render_def Let_def
        margin_left_def margin_right_def margin_top_def margin_bottom_def)

theorem layout_width_height_witness:
  "width 1000 2 = 600 \<and> width 500 8 = 800 \<and> height 3 = 600 \<and> height 6001 = 601
   \<and> height 20000 = 800
   \<and> svgWidth (render example_builtins 1000 [lit ''a'', lit ''b''] three_records_types
        three_records) = 960
   \<and> svgHeight (render example_builtins 1000 [lit ''a'', lit ''b''] three_records_types
        three_records) = 670"
  using layout_width_height [of 1000 2 3 example_builtins "[lit ''a'', lit ''b'']"
          three_records_types three_records]
        layout_width_height [of 500 8 6001]
        layout_width_height [of 500 8 20000]
  by (simp add: three_records_def width_def containerWidth_def height_def
        margin_left_def margin_right_def)

text \<open>
  The claim as stated, with the quotient \<^verbatim>\<open>recordCount / 15\<close> not rounded up, fails for 6001
  records: the code's height is 601, the stated formula gives 600 + 1/15 (and 600 with an
  integer quotient).
\<close>

theorem height_exact_quotient_counterexample:
  "height 6001 = 601
   \<and> real_of_int (height 6001) \<noteq> max 400 (min 600 (6001 / 15)) + 200
   \<and> height 6001 \<noteq> max 400 (min 600 (6001 div 15)) + 200"
  by (simp add: height_def)

subsection \<open>The extent of a numeric column\<close>

lemma min2_Fin [simp]: "min2 (Fin a) (Fin b) = Fin (min a b)"
  by (simp add: min_def)

lemma max2_Fin [simp]: "max2 (Fin a) (Fin b) = Fin (max a b)"
  by (simp add: max_def)

lemma foldl_min2_Fin: "foldl min2 (Fin a) (map Fin xs) = Fin (fold min xs a)"
  by (induction xs arbitrary: a) (simp_all add: min.commute)

lemma foldl_max2_Fin: "foldl max2 (Fin a) (map Fin xs) = Fin (fold max xs a)"
  by (induction xs arbitrary: a) (simp_all add: max.commute)

lemma Math_min_Fin:
  assumes "xs \<noteq> []"
  shows "Math_min (map Fin xs) = Fin (Min (set xs))"
proof -
  from assms obtain x ys where xs: "xs = x # ys" by (cases xs) auto
  have "Math_min (map Fin xs) = Fin (fold min ys x)"
    by (simp add: xs Math_min_def foldl_min2_Fin)
  also have "fold min ys x = Min (set (x # ys))"
    by (rule Min.set_eq_fold [symmetric])
  finally show ?thesis by (simp only: xs)
qed

lemma Math_max_Fin:
  assumes "xs \<noteq> []"
  shows "Math_max (map Fin xs) = Fin (Max (set xs))"
proof -
  from assms obtain x ys where xs: "xs = x # ys" by (cases xs) auto
  have "Math_max (map Fin xs) = Fin (fold max ys x)"
    by (simp add: xs Math_max_def foldl_max2_Fin)
  also have "fold max ys x = Max (set (x # ys))"
    by (rule Max.set_eq_fold [symmetric])
  finally show ?thesis by (simp only: xs)
qed

lemma foldl_min2_NaN [simp]: "foldl min2 NaN xs = NaN"
  by (induction xs) simp_all

lemma foldl_max2_NaN [simp]: "foldl max2 NaN xs = NaN"
  by (induction xs) simp_all

lemma foldl_min2_NInf: "foldl min2 NInf xs = NInf \<or> foldl min2 NInf xs = NaN"
proof (induction xs)
  case Nil
  show ?case by simp
next
  case (Cons x xs)
  then show ?case by (cases x) simp_all
qed

lemma foldl_max2_PInf: "foldl max2 PInf xs = PInf \<or> foldl max2 PInf xs = NaN"
proof (induction xs)
  case Nil
  show ?case by simp
next
  case (Cons x xs)
  then show ?case by (cases x) simp_all
qed

lemma min2_NInf: "min2 acc NInf = NInf \<or> min2 acc NInf = NaN"
  by (cases acc) simp_all

lemma max2_PInf: "max2 acc PInf = PInf \<or> max2 acc PInf = NaN"
  by (cases acc) simp_all

lemma foldl_min2_finite:
  "foldl min2 acc xs = Fin a \<Longrightarrow> \<forall>x\<in>set xs. x \<noteq> NaN \<and> x \<noteq> NInf"
proof (induction xs arbitrary: acc)
  case Nil
  show ?case by simp
next
  case (Cons x xs)
  from Cons.prems have step: "foldl min2 (min2 acc x) xs = Fin a" by simp
  have "x \<noteq> NaN"
  proof
    assume "x = NaN"
    then have "min2 acc x = NaN" by (cases acc) simp_all
    with step show False by simp
  qed
  moreover have "x \<noteq> NInf"
  proof
    assume "x = NInf"
    with min2_NInf [of acc] foldl_min2_NInf [of xs] step show False by auto
  qed
  ultimately show ?case using Cons.IH [OF step] by simp
qed

lemma foldl_max2_finite:
  "foldl max2 acc xs = Fin a \<Longrightarrow> \<forall>x\<in>set xs. x \<noteq> NaN \<and> x \<noteq> PInf"
proof (induction xs arbitrary: acc)
  case Nil
  show ?case by simp
next
  case (Cons x xs)
  from Cons.prems have step: "foldl max2 (max2 acc x) xs = Fin a" by simp
  have "x \<noteq> NaN"
  proof
    assume "x = NaN"
    then have "max2 acc x = NaN" by (cases acc) simp_all
    with step show False by simp
  qed
  moreover have "x \<noteq> PInf"
  proof
    assume "x = PInf"
    with max2_PInf [of acc] foldl_max2_PInf [of xs] step show False by auto
  qed
  ultimately show ?case using Cons.IH [OF step] by simp
qed

lemma extent_finite:
  assumes "Math_min xs = Fin lo" and "Math_max xs = Fin hi"
  shows "xs \<noteq> [] \<and> (\<forall>x\<in>set xs. isFinite x)"
proof
  show "xs \<noteq> []" using assms(1) by (auto simp: Math_min_def)
  show "\<forall>x\<in>set xs. isFinite x"
  proof
    fix x assume "x \<in> set xs"
    with foldl_min2_finite [of PInf xs lo] foldl_max2_finite [of NInf xs hi] assms
    have "x \<noteq> NaN \<and> x \<noteq> NInf \<and> x \<noteq> PInf" by (auto simp: Math_min_def Math_max_def)
    then show "isFinite x" by (cases x) simp_all
  qed
qed

lemma map_the_Fin: "\<forall>x\<in>set xs. isFinite x \<Longrightarrow> map Fin (map the_Fin xs) = xs"
  by (induction xs) (auto simp: isFinite_iff)

lemma finite_extent:
  assumes "vals \<noteq> []" and "\<forall>v\<in>set vals. isFinite (ToNumber B v)"
  shows "Math_min (map (ToNumber B) vals) = Fin (Min (set (finite_values B vals)))"
    and "Math_max (map (ToNumber B) vals) = Fin (Max (set (finite_values B vals)))"
proof -
  have eq: "map (ToNumber B) vals = map Fin (finite_values B vals)"
    using map_the_Fin [of "map (ToNumber B) vals"] assms(2)
    by (simp add: finite_values_def comp_def)
  have ne: "finite_values B vals \<noteq> []" using assms(1) by (simp add: finite_values_def)
  show "Math_min (map (ToNumber B) vals) = Fin (Min (set (finite_values B vals)))"
    unfolding eq by (rule Math_min_Fin [OF ne])
  show "Math_max (map (ToNumber B) vals) = Fin (Max (set (finite_values B vals)))"
    unfolding eq by (rule Math_max_Fin [OF ne])
qed

lemma buildScale_numeric:
  "types dm = Some Numeric \<Longrightarrow>
   vals = [v \<leftarrow> map (\<lambda>d. get d dm) data. v \<noteq> Undefined \<and> v \<noteq> Null] \<Longrightarrow>
   buildScale B data types h dm =
     LinearScale (Math_min (map (ToNumber B) vals)) (Math_max (map (ToNumber B) vals))
       (real_of_int h) 0"
  by (simp add: buildScale_def scaleLinear_def Let_def)

lemma linear_apply:
  assumes "lo < hi" and "ToNumber B v = Fin x" and "v \<noteq> Undefined" and "v \<noteq> Null"
  shows "scale_apply B (LinearScale (Fin lo) (Fin hi) r0 r1) v
           = Some (Fin (r0 * (1 - (x - lo) / (hi - lo)) + r1 * ((x - lo) / (hi - lo))))"
  using assms
  by (simp add: bimap_def normalize_def interpolateNumber_def js_sub_def Let_def)


subsection \<open>Numeric scales\<close>

text \<open>
  Claim C3, as amended. For every dimension typed numeric whose \<^verbatim>\<open>Math.min\<close> and
  \<^verbatim>\<open>Math.max\<close> over its non-missing values (the values \<^verbatim>\<open>d[dim]\<close> that are neither
  \<^verbatim>\<open>undefined\<close> nor \<^verbatim>\<open>null\<close>) are finite numbers \<open>lo < hi\<close>: every non-missing value is a
  finite number, \<open>lo\<close> and \<open>hi\<close> are the least and the greatest of them, the scale's domain
  is \<open>[lo, hi]\<close> and its range \<open>[height, 0]\<close>, and the scale is the affine map
  \<open>x \<mapsto> height * (1 - (x - lo) / (hi - lo))\<close>, which sends \<open>lo\<close> to the height and \<open>hi\<close> to
  0 and gives a larger value a position that is not lower on the screen (a smaller or
  equal coordinate).
\<close>

theorem numeric_scale_affine:
  assumes "types dm = Some Numeric"
      and "vals = [v \<leftarrow> map (\<lambda>d. get d dm) data. v \<noteq> Undefined \<and> v \<noteq> Null]"
      and "Math_min (map (ToNumber B) vals) = Fin lo"
      and "Math_max (map (ToNumber B) vals) = Fin hi"
      and "lo < hi"
  shows "buildScale B data types h dm = LinearScale (Fin lo) (Fin hi) (real_of_int h) 0
       \<and> (\<forall>v \<in> set vals. isFinite (ToNumber B v))
       \<and> lo = Min (set (finite_values B vals))
       \<and> hi = Max (set (finite_values B vals))
       \<and> (\<forall>v x. v \<noteq> Undefined \<and> v \<noteq> Null \<and> ToNumber B v = Fin x \<longrightarrow>
             scale_apply B (buildScale B data types h dm) v
               = Some (Fin (real_of_int h * (1 - (x - lo) / (hi - lo)))))
       \<and> scale_apply B (buildScale B data types h dm) (Num (Fin lo)) = Some (Fin (real_of_int h))
       \<and> scale_apply B (buildScale B data types h dm) (Num (Fin hi)) = Some (Fin 0)
       \<and> (\<forall>x y. 0 \<le> h \<and> x \<le> y \<longrightarrow>
             real_of_int h * (1 - (y - lo) / (hi - lo))
               \<le> real_of_int h * (1 - (x - lo) / (hi - lo)))"
proof -
  have mono: "real_of_int h * (1 - (y - lo) / (hi - lo))
                \<le> real_of_int h * (1 - (x - lo) / (hi - lo))"
    if "0 \<le> h \<and> x \<le> y" for x y
  proof -
    from that assms(5) have "(x - lo) / (hi - lo) \<le> (y - lo) / (hi - lo)"
      by (simp add: divide_right_mono)
    then have "1 - (y - lo) / (hi - lo) \<le> 1 - (x - lo) / (hi - lo)" by simp
    with that show ?thesis by (simp add: mult_left_mono)
  qed
  have sc: "buildScale B data types h dm = LinearScale (Fin lo) (Fin hi) (real_of_int h) 0"
    using buildScale_numeric [of types dm vals data B h] assms(1-4) by simp
  have fin: "vals \<noteq> [] \<and> (\<forall>v \<in> set vals. isFinite (ToNumber B v))"
    using extent_finite [OF assms(3,4)] by simp
  have lo: "lo = Min (set (finite_values B vals))"
    using finite_extent(1) [of vals B] fin assms(3) by simp
  have hi: "hi = Max (set (finite_values B vals))"
    using finite_extent(2) [of vals B] fin assms(4) by simp
  have app: "scale_apply B (buildScale B data types h dm) v
               = Some (Fin (real_of_int h * (1 - (x - lo) / (hi - lo))))"
    if "v \<noteq> Undefined \<and> v \<noteq> Null \<and> ToNumber B v = Fin x" for v x
    using that linear_apply [OF assms(5), of B v x "real_of_int h" 0] by (simp add: sc)
  have at_lo: "scale_apply B (buildScale B data types h dm) (Num (Fin lo))
                 = Some (Fin (real_of_int h))"
    using app [of "Num (Fin lo)" lo] by simp
  have at_hi: "scale_apply B (buildScale B data types h dm) (Num (Fin hi)) = Some (Fin 0)"
    using app [of "Num (Fin hi)" hi] assms(5) by simp
  from sc fin lo hi app at_lo at_hi mono show ?thesis by blast
qed

lemma values_234_v:
  "[v \<leftarrow> map (\<lambda>d. get d (lit ''v'')) values_234. v \<noteq> Undefined \<and> v \<noteq> Null]
     = [Num (Fin 2), Num (Fin 3), Num (Fin 4)]"
  by (simp add: values_234_def get_lit)

lemma constant_column_v:
  "[v \<leftarrow> map (\<lambda>d. get d (lit ''v'')) constant_column. v \<noteq> Undefined \<and> v \<noteq> Null]
     = [Num (Fin 3), Num (Fin 3)]"
  by (simp add: constant_column_def get_lit)

lemma overflow_gpa_v:
  "[v \<leftarrow> map (\<lambda>d. get d (lit ''gpa'')) overflow_gpa. v \<noteq> Undefined \<and> v \<noteq> Null]
     = [Num (Fin 1), Num PInf]"
  by (simp add: overflow_gpa_def get_lit)


lemma dataTypes_2012_gpa: "dataTypes_2012 (lit ''gpa'') = Some Numeric"
  by (simp add: dataTypes_2012_def)

text \<open>
  The values 2, 3 and 4: the scale sends 2 to the height, 4 to 0 and 3 to half the height.
\<close>

theorem numeric_scale_affine_witness:
  "scale_apply example_builtins
      (buildScale example_builtins values_234 [lit ''v'' \<mapsto> Numeric] (height 3) (lit ''v''))
      (Num (Fin 2))
     = Some (Fin (real_of_int (height 3)))
   \<and> scale_apply example_builtins
      (buildScale example_builtins values_234 [lit ''v'' \<mapsto> Numeric] (height 3) (lit ''v''))
      (Num (Fin 4))
     = Some (Fin 0)
   \<and> scale_apply example_builtins
      (buildScale example_builtins values_234 [lit ''v'' \<mapsto> Numeric] (height 3) (lit ''v''))
      (Num (Fin 3))
     = Some (Fin (real_of_int (height 3) / 2))
   \<and> buildScale example_builtins values_234 [lit ''v'' \<mapsto> Numeric] (height 3) (lit ''v'')
     = LinearScale (Fin 2) (Fin 4) (real_of_int (height 3)) 0"
proof -
  let ?sc = "buildScale example_builtins values_234 [lit ''v'' \<mapsto> Numeric] (height 3) (lit ''v'')"
  have ty: "[lit ''v'' \<mapsto> Numeric] (lit ''v'') = Some Numeric" by simp
  have mn: "Math_min (map (ToNumber example_builtins)
              [Num (Fin 2), Num (Fin 3), Num (Fin 4)]) = Fin 2"
    by (simp add: Math_min_def)
  have mx: "Math_max (map (ToNumber example_builtins)
              [Num (Fin 2), Num (Fin 3), Num (Fin 4)]) = Fin 4"
    by (simp add: Math_max_def)
  have lt: "(2::real) < 4" by simp
  note inst = numeric_scale_affine
      [where types = "[lit ''v'' \<mapsto> Numeric]" and dm = "lit ''v''" and B = example_builtins
         and data = values_234 and lo = 2 and hi = 4 and h = "height 3"
         and vals = "[Num (Fin 2), Num (Fin 3), Num (Fin 4)]",
       OF ty values_234_v [symmetric] mn mx lt]
  from inst have sc: "?sc = LinearScale (Fin 2) (Fin 4) (real_of_int (height 3)) 0" by blast
  from inst have lo: "scale_apply example_builtins ?sc (Num (Fin 2))
     = Some (Fin (real_of_int (height 3)))" by blast
  from inst have hi: "scale_apply example_builtins ?sc (Num (Fin 4)) = Some (Fin 0)" by blast
  from inst have "\<forall>v x. v \<noteq> Undefined \<and> v \<noteq> Null \<and> ToNumber example_builtins v = Fin x \<longrightarrow>
             scale_apply example_builtins ?sc v
               = Some (Fin (real_of_int (height 3) * (1 - (x - 2) / (4 - 2))))" by blast
  then have "scale_apply example_builtins ?sc (Num (Fin 3))
     = Some (Fin (real_of_int (height 3) * (1 - (3 - 2) / (4 - 2))))"
    by (rule allE [where x = "Num (Fin 3)"]) simp
  then have mid: "scale_apply example_builtins ?sc (Num (Fin 3))
     = Some (Fin (real_of_int (height 3) / 2))" by simp
  from lo hi mid sc show ?thesis by blast
qed

text \<open>
  The claim as stated, for every numeric dimension, fails in two ways. When all values are
  equal: the column with the values 3 and 3 is detected numeric, its minimum and maximum
  are both 3, the height is 600, and the scale sends 3 to 300, neither to the height nor to
  0. When a value is not finite: in the static mode the column \<^verbatim>\<open>gpa\<close> of the 2012 table
  is typed numeric whatever it holds; with the values 1 and \<^verbatim>\<open>1e999\<close> its minimum is 1, its
  maximum is \<^verbatim>\<open>Infinity\<close>, and the scale sends the maximum to NaN, not to 0.
\<close>

theorem constant_column_counterexample:
  "detectDataTypes example_builtins constant_column [lit ''v''] (lit ''v'') = Some Numeric
   \<and> [v \<leftarrow> map (\<lambda>d. get d (lit ''v'')) constant_column. v \<noteq> Undefined \<and> v \<noteq> Null]
       = [Num (Fin 3), Num (Fin 3)]
   \<and> Math_min (map (ToNumber example_builtins) [Num (Fin 3), Num (Fin 3)]) = Fin 3
   \<and> Math_max (map (ToNumber example_builtins) [Num (Fin 3), Num (Fin 3)]) = Fin 3
   \<and> height (length constant_column) = 600
   \<and> scale_apply example_builtins
        (buildScale example_builtins constant_column
           (detectDataTypes example_builtins constant_column [lit ''v''])
           (height (length constant_column)) (lit ''v''))
        (Num (Fin 3)) = Some (Fin 300)
   \<and> dataTypes 2012 = Some dataTypes_2012
   \<and> dataTypes_2012 (lit ''gpa'') = Some Numeric
   \<and> [v \<leftarrow> map (\<lambda>d. get d (lit ''gpa'')) overflow_gpa. v \<noteq> Undefined \<and> v \<noteq> Null]
       = [Num (Fin 1), Num PInf]
   \<and> Math_min (map (ToNumber example_builtins) [Num (Fin 1), Num PInf]) = Fin 1
   \<and> Math_max (map (ToNumber example_builtins) [Num (Fin 1), Num PInf]) = PInf
   \<and> js_lt (Fin 1) PInf
   \<and> scale_apply example_builtins
        (buildScale example_builtins overflow_gpa dataTypes_2012
           (height (length overflow_gpa)) (lit ''gpa''))
        (Num PInf) = Some NaN"
proof -
  have ty: "detectDataTypes example_builtins constant_column [lit ''v''] (lit ''v'')
              = Some Numeric"
    by (simp add: detectDataTypes_lookup isNumeric_def constant_column_v)
  have mn: "Math_min (map (ToNumber example_builtins) [Num (Fin 3), Num (Fin 3)]) = Fin 3"
    by (simp add: Math_min_def)
  have mx: "Math_max (map (ToNumber example_builtins) [Num (Fin 3), Num (Fin 3)]) = Fin 3"
    by (simp add: Math_max_def)
  have h: "height (length constant_column) = 600"
    by (simp add: constant_column_def height_def)
  have sc: "buildScale example_builtins constant_column
           (detectDataTypes example_builtins constant_column [lit ''v'']) 600 (lit ''v'')
          = LinearScale (Fin 3) (Fin 3) 600 0"
    using buildScale_numeric
          [where types = "detectDataTypes example_builtins constant_column [lit ''v'']"
             and dm = "lit ''v''" and vals = "[Num (Fin 3), Num (Fin 3)]"
             and data = constant_column and B = example_builtins and h = 600,
           OF ty constant_column_v [symmetric]] mn mx
    by simp
  have at3: "scale_apply example_builtins
        (buildScale example_builtins constant_column
           (detectDataTypes example_builtins constant_column [lit ''v''])
           (height (length constant_column)) (lit ''v''))
        (Num (Fin 3)) = Some (Fin 300)"
    unfolding h sc
    by (simp add: bimap_def normalize_def interpolateNumber_def js_sub_def)
  have tbl: "dataTypes 2012 = Some dataTypes_2012" by (simp add: dataTypes_def)
  have mn': "Math_min (map (ToNumber example_builtins) [Num (Fin 1), Num PInf]) = Fin 1"
    by (simp add: Math_min_def)
  have mx': "Math_max (map (ToNumber example_builtins) [Num (Fin 1), Num PInf]) = PInf"
    by (simp add: Math_max_def)
  have h': "height (length overflow_gpa) = 600"
    by (simp add: overflow_gpa_def height_def)
  have sc': "buildScale example_builtins overflow_gpa dataTypes_2012 600 (lit ''gpa'')
          = LinearScale (Fin 1) PInf 600 0"
    using buildScale_numeric
          [where types = dataTypes_2012 and dm = "lit ''gpa''"
             and vals = "[Num (Fin 1), Num PInf]" and data = overflow_gpa
             and B = example_builtins and h = 600,
           OF dataTypes_2012_gpa overflow_gpa_v [symmetric]] mn' mx'
    by simp
  have atinf: "scale_apply example_builtins
        (buildScale example_builtins overflow_gpa dataTypes_2012
           (height (length overflow_gpa)) (lit ''gpa''))
        (Num PInf) = Some NaN"
    unfolding h' sc'
    by (simp add: bimap_def normalize_def interpolateNumber_def js_sub_def signed_inf_def)
  have lt: "js_lt (Fin 1) PInf" by simp
  from ty constant_column_v mn mx h at3 tbl dataTypes_2012_gpa overflow_gpa_v mn' mx' lt atinf
  show ?thesis by blast
qed




text \<open>
  Claim C10. In the generic mode, a dimension \<^verbatim>\<open>detectDataTypes\<close> labels numeric has at
  least one record whose value \<^verbatim>\<open>d[dim]\<close> is neither \<^verbatim>\<open>undefined\<close> nor \<^verbatim>\<open>null\<close>; the
  values the scale builder collects for it are those the detection examined, \<^verbatim>\<open>Math.min\<close>
  and \<^verbatim>\<open>Math.max\<close> over them are finite numbers \<open>lo \<le> hi\<close> (the least and the greatest
  value), and the domain of its scale is \<open>[lo, hi]\<close>, never \<open>[+Infinity, -Infinity]\<close>.
\<close>

theorem numeric_has_finite_extent:
  assumes "detectDataTypes B data dims dm = Some Numeric"
      and "vals = [v \<leftarrow> map (\<lambda>d. get d dm) data. v \<noteq> Undefined \<and> v \<noteq> Null]"
  shows "vals \<noteq> []
       \<and> (\<exists>d \<in> set data. get d dm \<noteq> Undefined \<and> get d dm \<noteq> Null)
       \<and> (\<exists>lo hi. lo \<le> hi
            \<and> Math_min (map (ToNumber B) vals) = Fin lo
            \<and> Math_max (map (ToNumber B) vals) = Fin hi
            \<and> lo = Min (set (finite_values B vals))
            \<and> hi = Max (set (finite_values B vals))
            \<and> buildScale B data (detectDataTypes B data dims) h dm
                = LinearScale (Fin lo) (Fin hi) (real_of_int h) 0)
       \<and> buildScale B data (detectDataTypes B data dims) h dm
            \<noteq> LinearScale PInf NInf (real_of_int h) 0"
proof -
  let ?xs = "finite_values B vals"
  from assms have num: "isNumeric B vals"
    by (simp add: detectDataTypes_lookup split: if_splits)
  then have ne: "vals \<noteq> []" and fin: "\<forall>v\<in>set vals. isFinite (ToNumber B v)"
    by (simp_all add: isNumeric_iff)
  from ne obtain v where "v \<in> set vals" by (cases vals) auto
  then have ex: "\<exists>d \<in> set data. get d dm \<noteq> Undefined \<and> get d dm \<noteq> Null"
    unfolding assms(2) by auto
  have mn: "Math_min (map (ToNumber B) vals) = Fin (Min (set ?xs))"
    by (rule finite_extent(1) [OF ne fin])
  have mx: "Math_max (map (ToNumber B) vals) = Fin (Max (set ?xs))"
    by (rule finite_extent(2) [OF ne fin])
  have "?xs \<noteq> []" using ne by (simp add: finite_values_def)
  then have le: "Min (set ?xs) \<le> Max (set ?xs)" by simp
  have sc: "buildScale B data (detectDataTypes B data dims) h dm
              = LinearScale (Fin (Min (set ?xs))) (Fin (Max (set ?xs))) (real_of_int h) 0"
    using buildScale_numeric [of "detectDataTypes B data dims" dm vals data B h] assms mn mx
    by simp
  then have "buildScale B data (detectDataTypes B data dims) h dm
               \<noteq> LinearScale PInf NInf (real_of_int h) 0" by simp
  with ne ex le mn mx sc show ?thesis by blast
qed

theorem numeric_has_finite_extent_witness:
  "detectDataTypes example_builtins three_records [lit ''a'', lit ''b''] (lit ''a'')
     = Some Numeric
   \<and> [v \<leftarrow> map (\<lambda>d. get d (lit ''a'')) three_records. v \<noteq> Undefined \<and> v \<noteq> Null] \<noteq> []
   \<and> buildScale example_builtins three_records
        (detectDataTypes example_builtins three_records [lit ''a'', lit ''b'']) 600 (lit ''a'')
       \<noteq> LinearScale PInf NInf 600 0"
proof -
  have ty: "detectDataTypes example_builtins three_records [lit ''a'', lit ''b''] (lit ''a'')
              = Some Numeric"
    by (simp add: detectDataTypes_lookup isNumeric_def three_records_a)
  from numeric_has_finite_extent [OF ty refl, of 600] ty show ?thesis by simp
qed

subsection \<open>Categorical scales\<close>

lemma foldl_seen_set:
  "set (foldl (\<lambda>seen x. if x \<in> set seen then seen else seen @ [x]) acc xs) = set acc \<union> set xs"
  by (induction xs arbitrary: acc) auto

lemma foldl_seen_distinct:
  "distinct acc \<Longrightarrow> distinct (foldl (\<lambda>seen x. if x \<in> set seen then seen else seen @ [x]) acc xs)"
  by (induction xs arbitrary: acc) auto

lemma foldl_seen_append:
  "distinct (acc @ xs) \<Longrightarrow>
   foldl (\<lambda>seen x. if x \<in> set seen then seen else seen @ [x]) acc xs = acc @ xs"
  by (induction xs arbitrary: acc) auto

lemma set_Set_values [simp]: "set (Set_values xs) = set xs"
  by (simp add: Set_values_def foldl_seen_set)

lemma distinct_Set_values [simp]: "distinct (Set_values xs)"
  by (simp add: Set_values_def foldl_seen_distinct)

lemma Set_values_distinct: "distinct xs \<Longrightarrow> Set_values xs = xs"
  using foldl_seen_append [of "[]" xs] by (simp add: Set_values_def)

lemma buildScale_nominal:
  "types dm \<noteq> Some Numeric \<Longrightarrow>
   vals = [v \<leftarrow> map (\<lambda>d. get d dm) data. v \<noteq> Undefined \<and> v \<noteq> Null] \<Longrightarrow>
   buildScale B data types h dm =
     PointScale (js_sort B (Set_values vals)) (real_of_int h) 0"
  by (simp add: buildScale_def scalePoint_def Let_def js_sort_def Set_values_distinct)


lemma length_point_values [simp]: "length (point_values n r0 r1) = n"
  by (simp add: point_values_def Let_def)













subsection \<open>Polylines\<close>












subsection \<open>Resizing\<close>

lemma run_timers_Nil [simp]: "run_timers draw dataset cw [] win = win"
  by (simp add: run_timers_def)

lemma run_timers_single [simp]:
  "run_timers draw dataset cw [tm] win = callback draw dataset cw (snd tm) win"
  by (simp add: run_timers_def)

lemma elapse_none_due:
  assumes "\<forall>tm \<in> set (timers win). t < snd tm"
  shows "elapse draw dataset cw t win = win"
proof -
  from assms have due: "filter (\<lambda>tm. snd tm \<le> t) (timers win) = []"
    by (auto simp: filter_empty_conv)
  from assms have later: "filter (\<lambda>tm. \<not> snd tm \<le> t) (timers win) = timers win"
    by (auto simp: filter_id_conv)
  show ?thesis by (simp add: elapse_def Let_def due later)
qed

lemma onResize_idle:
  "timers win = [] \<Longrightarrow>
   onResize t win =
     win\<lparr>timers := [(next_handle win, t + 250)], next_handle := Suc (next_handle win),
         resizeTimeout := Some (next_handle win)\<rparr>"
  by (simp add: onResize_def clearTimeout_def setTimeout_def Let_def)

lemma onResize_pending:
  "timers win = [(i, d)] \<Longrightarrow> resizeTimeout win = Some i \<Longrightarrow>
   onResize t win =
     win\<lparr>timers := [(next_handle win, t + 250)], next_handle := Suc (next_handle win),
         resizeTimeout := Some (next_handle win)\<rparr>"
  by (simp add: onResize_def clearTimeout_def setTimeout_def Let_def)

lemma resizes_burst:
  "burst (t # ts) \<Longrightarrow>
   timers win = [] \<or> (\<exists>i d. timers win = [(i, d)] \<and> resizeTimeout win = Some i \<and> t < d) \<Longrightarrow>
   resizes draw dataset cw (t # ts) win =
     win\<lparr>timers := [(next_handle win + length ts, last (t # ts) + 250)],
         next_handle := next_handle win + Suc (length ts),
         resizeTimeout := Some (next_handle win + length ts)\<rparr>"
proof (induction ts arbitrary: t win)
  case Nil
  from Nil.prems(2) have quiet: "elapse draw dataset cw t win = win"
    by (intro elapse_none_due) auto
  from Nil.prems(2) have "onResize t win =
     win\<lparr>timers := [(next_handle win, t + 250)], next_handle := Suc (next_handle win),
         resizeTimeout := Some (next_handle win)\<rparr>"
    using onResize_idle [of win t] onResize_pending [of win _ _ t] by blast
  with quiet show ?case by simp
next
  case (Cons u us)
  let ?win' = "win\<lparr>timers := [(next_handle win, t + 250)],
                   next_handle := Suc (next_handle win),
                   resizeTimeout := Some (next_handle win)\<rparr>"
  from Cons.prems(1) have b: "burst (u # us)" and lt: "u < t + 250" by simp_all
  from Cons.prems(2) have quiet: "elapse draw dataset cw t win = win"
    by (intro elapse_none_due) auto
  from Cons.prems(2) have "onResize t win = ?win'"
    using onResize_idle [of win t] onResize_pending [of win _ _ t] by blast
  with quiet have step:
    "resizes draw dataset cw (t # u # us) win = resizes draw dataset cw (u # us) ?win'"
    by (simp only: resizes.simps(2))
  have pend: "timers ?win' = []
      \<or> (\<exists>i d. timers ?win' = [(i, d)] \<and> resizeTimeout ?win' = Some i \<and> u < d)"
    using lt by simp
  have "resizes draw dataset cw (u # us) ?win'
          = ?win'\<lparr>timers := [(next_handle ?win' + length us, last (u # us) + 250)],
                  next_handle := next_handle ?win' + Suc (length us),
                  resizeTimeout := Some (next_handle ?win' + length us)\<rparr>"
    by (rule Cons.IH [OF b pend])
  with step show ?case by simp
qed

lemma callback_unloaded:
  "\<not> loaded (dataset (globals win)) \<Longrightarrow> callback draw dataset cw t win = win"
  by (simp add: callback_def)

lemma run_timers_unloaded:
  "\<not> loaded (dataset (globals win)) \<Longrightarrow> run_timers draw dataset cw due win = win"
  unfolding run_timers_def by (induction due) (simp_all add: callback_unloaded)

lemma elapse_unloaded:
  assumes "\<not> loaded (dataset (globals win))"
  shows "globals (elapse draw dataset cw t win) = globals win
       \<and> redraws (elapse draw dataset cw t win) = redraws win"
proof -
  let ?win' = "win\<lparr>timers := filter (\<lambda>tm. \<not> snd tm \<le> t) (timers win)\<rparr>"
  from assms have "\<not> loaded (dataset (globals ?win'))" by simp
  then have "run_timers draw dataset cw
               (sort_key snd (filter (\<lambda>tm. snd tm \<le> t) (timers win))) ?win' = ?win'"
    by (rule run_timers_unloaded)
  then show ?thesis by (simp add: elapse_def Let_def)
qed

lemma onResize_keeps:
  "globals (onResize t win) = globals win \<and> redraws (onResize t win) = redraws win"
  by (simp add: onResize_def clearTimeout_def setTimeout_def Let_def)

lemma resizes_unloaded:
  "\<not> loaded (dataset (globals win)) \<Longrightarrow>
   globals (resizes draw dataset cw ts win) = globals win
   \<and> redraws (resizes draw dataset cw ts win) = redraws win"
proof (induction ts arbitrary: win)
  case Nil
  show ?case by simp
next
  case (Cons t ts)
  let ?win' = "onResize t (elapse draw dataset cw t win)"
  have keep: "globals ?win' = globals win \<and> redraws ?win' = redraws win"
    using elapse_unloaded [where dataset = dataset and win = win and draw = draw and cw = cw
                             and t = t] Cons.prems
    by (simp add: onResize_keeps)
  with Cons.prems have "\<not> loaded (dataset (globals ?win'))" by simp
  with Cons.IH [of ?win'] keep show ?case by simp
qed

lemma settle_unloaded:
  assumes "\<not> loaded (dataset (globals win))"
  shows "globals (settle draw dataset cw win) = globals win
       \<and> redraws (settle draw dataset cw win) = redraws win"
proof -
  from assms have "\<not> loaded (dataset (globals (win\<lparr>timers := []\<rparr>)))" by simp
  then have "run_timers draw dataset cw (sort_key snd (timers win)) (win\<lparr>timers := []\<rparr>)
               = win\<lparr>timers := []\<rparr>"
    by (rule run_timers_unloaded)
  then show ?thesis by (simp add: settle_def)
qed

lemma burst_settled:
  assumes "burst (t # ts)" and "timers win = []" and "loaded (dataset (globals win))"
  shows "settle draw dataset cw (resizes draw dataset cw (t # ts) win) =
           win\<lparr>timers := [],
               next_handle := next_handle win + Suc (length ts),
               resizeTimeout := Some (next_handle win + length ts),
               globals := draw (cw (last (t # ts) + 250)) (globals win),
               redraws := redraws win @ [(last (t # ts) + 250, cw (last (t # ts) + 250))]\<rparr>"
proof -
  have "resizes draw dataset cw (t # ts) win =
     win\<lparr>timers := [(next_handle win + length ts, last (t # ts) + 250)],
         next_handle := next_handle win + Suc (length ts),
         resizeTimeout := Some (next_handle win + length ts)\<rparr>"
    using resizes_burst [where t = t and ts = ts and win = win and draw = draw
                           and dataset = dataset and cw = cw] assms(1,2) by simp
  then show ?thesis
    using assms(3) by (simp add: settle_def callback_def)
qed

lemma unloaded_settled:
  assumes "\<not> loaded (dataset (globals win))"
  shows "globals (settle draw dataset cw (resizes draw dataset cw ts win)) = globals win
       \<and> redraws (settle draw dataset cw (resizes draw dataset cw ts win)) = redraws win"
proof -
  from resizes_unloaded [where dataset = dataset and win = win and draw = draw and cw = cw
                            and ts = ts] assms
  have keep: "globals (resizes draw dataset cw ts win) = globals win"
    "redraws (resizes draw dataset cw ts win) = redraws win" by simp_all
  with assms have "\<not> loaded (dataset (globals (resizes draw dataset cw ts win)))" by simp
  with settle_unloaded [where dataset = dataset and draw = draw and cw = cw
                          and win = "resizes draw dataset cw ts win"] keep
  show ?thesis by simp
qed

text \<open>
  Claim C9. In both modes: when a dataset is loaded (\<^verbatim>\<open>currentDataset\<close> is truthy) and no
  timer is pending, a burst of resize events, each gap between consecutive events shorter
  than 250 ms, is followed by exactly one redraw, made 250 ms after the last event of the
  burst with the container's width at that time: every event's \<^verbatim>\<open>clearTimeout\<close> removes the
  timer the event before it set, so that when the burst is over only the last timer is
  pending, and after it has run none is. When no dataset has been loaded
  (\<^verbatim>\<open>currentDataset\<close> is \<^verbatim>\<open>null\<close>), no sequence of resize events leads to a redraw,
  whatever timers run, and the globals stay as they are.
\<close>

theorem resize_debounced:
  "(burst (t # ts) \<and> timers win = [] \<and> loaded (currentDataset (globals win)) \<longrightarrow>
      settle (drawVisualization B) currentDataset cw
             (resizes (drawVisualization B) currentDataset cw (t # ts) win)
        = win\<lparr>timers := [],
              next_handle := next_handle win + Suc (length ts),
              resizeTimeout := Some (next_handle win + length ts),
              globals := drawVisualization B (cw (last (t # ts) + 250)) (globals win),
              redraws := redraws win @ [(last (t # ts) + 250, cw (last (t # ts) + 250))]\<rparr>)
   \<and> (burst (t # ts) \<and> timers pwin = [] \<and> loaded (currentDataset (globals pwin)) \<longrightarrow>
      settle (redraw_static B) currentDataset cw
             (resizes (redraw_static B) currentDataset cw (t # ts) pwin)
        = pwin\<lparr>timers := [],
               next_handle := next_handle pwin + Suc (length ts),
               resizeTimeout := Some (next_handle pwin + length ts),
               globals := redraw_static B (cw (last (t # ts) + 250)) (globals pwin),
               redraws := redraws pwin @ [(last (t # ts) + 250, cw (last (t # ts) + 250))]\<rparr>)
   \<and> (currentDataset (globals win) = None \<longrightarrow>
      globals (settle (drawVisualization B) currentDataset cw
                 (resizes (drawVisualization B) currentDataset cw us win)) = globals win
      \<and> redraws (settle (drawVisualization B) currentDataset cw
                 (resizes (drawVisualization B) currentDataset cw us win)) = redraws win)
   \<and> (currentDataset (globals pwin) = None \<longrightarrow>
      globals (settle (redraw_static B) currentDataset cw
                 (resizes (redraw_static B) currentDataset cw us pwin)) = globals pwin
      \<and> redraws (settle (redraw_static B) currentDataset cw
                 (resizes (redraw_static B) currentDataset cw us pwin)) = redraws pwin)"
proof -
  have g: "settle (drawVisualization B) currentDataset cw
             (resizes (drawVisualization B) currentDataset cw (t # ts) win)
        = win\<lparr>timers := [],
              next_handle := next_handle win + Suc (length ts),
              resizeTimeout := Some (next_handle win + length ts),
              globals := drawVisualization B (cw (last (t # ts) + 250)) (globals win),
              redraws := redraws win @ [(last (t # ts) + 250, cw (last (t # ts) + 250))]\<rparr>"
    if "burst (t # ts) \<and> timers win = [] \<and> loaded (currentDataset (globals win))"
    using that burst_settled [where t = t and ts = ts and win = win
            and dataset = currentDataset and draw = "drawVisualization B" and cw = cw]
    by blast
  have s: "settle (redraw_static B) currentDataset cw
             (resizes (redraw_static B) currentDataset cw (t # ts) pwin)
        = pwin\<lparr>timers := [],
               next_handle := next_handle pwin + Suc (length ts),
               resizeTimeout := Some (next_handle pwin + length ts),
               globals := redraw_static B (cw (last (t # ts) + 250)) (globals pwin),
               redraws := redraws pwin @ [(last (t # ts) + 250, cw (last (t # ts) + 250))]\<rparr>"
    if "burst (t # ts) \<and> timers pwin = [] \<and> loaded (currentDataset (globals pwin))"
    using that burst_settled [where t = t and ts = ts and win = pwin
            and dataset = currentDataset and draw = "redraw_static B" and cw = cw]
    by blast
  have gu: "globals (settle (drawVisualization B) currentDataset cw
                 (resizes (drawVisualization B) currentDataset cw us win)) = globals win
      \<and> redraws (settle (drawVisualization B) currentDataset cw
                 (resizes (drawVisualization B) currentDataset cw us win)) = redraws win"
    if "currentDataset (globals win) = None"
    using that unloaded_settled [where dataset = currentDataset and win = win
            and draw = "drawVisualization B" and cw = cw and ts = us]
    by (simp add: loaded_def)
  have su: "globals (settle (redraw_static B) currentDataset cw
                 (resizes (redraw_static B) currentDataset cw us pwin)) = globals pwin
      \<and> redraws (settle (redraw_static B) currentDataset cw
                 (resizes (redraw_static B) currentDataset cw us pwin)) = redraws pwin"
    if "currentDataset (globals pwin) = None"
    using that unloaded_settled [where dataset = currentDataset and win = pwin
            and draw = "redraw_static B" and cw = cw and ts = us]
    by (simp add: loaded_def)
  from g s gu su show ?thesis by blast
qed

text \<open>
  Five events within 100 ms, the container shrinking to 800 after the last of them: one
  redraw, at 1350, with the width 800, and no timer left pending.
\<close>

theorem resize_debounced_witness:
  "burst [1000, 1020, 1040, 1060, 1100]
   \<and> redraws (settle (drawVisualization example_builtins) currentDataset example_clientWidth
        (resizes (drawVisualization example_builtins) currentDataset example_clientWidth
           [1000, 1020, 1040, 1060, 1100] example_window)) = [(1350, 800)]
   \<and> globals (settle (drawVisualization example_builtins) currentDataset example_clientWidth
        (resizes (drawVisualization example_builtins) currentDataset example_clientWidth
           [1000, 1020, 1040, 1060, 1100] example_window))
       = drawVisualization example_builtins 800 example_state
   \<and> timers (resizes (drawVisualization example_builtins) currentDataset example_clientWidth
           [1000, 1020, 1040, 1060, 1100] example_window) = [(5, 1350)]
   \<and> redraws (settle (drawVisualization example_builtins) currentDataset example_clientWidth
        (resizes (drawVisualization example_builtins) currentDataset example_clientWidth
           [1000, 1020, 1040, 1060, 1100] unloaded_window)) = []"
proof -
  have b: "burst [1000, 1020, 1040, 1060, 1100]" by simp
  have pre: "burst (1000 # [1020, 1040, 1060, 1100]) \<and> timers example_window = []
             \<and> loaded (currentDataset (globals example_window))"
    by (simp add: example_window_def example_state_def loaded_def)
  have un: "currentDataset (globals unloaded_window) = None"
    by (simp add: unloaded_window_def initial_state_def)
  from pre resize_debounced [where t = 1000 and ts = "[1020, 1040, 1060, 1100]"
         and win = example_window and B = example_builtins and cw = example_clientWidth]
  have eq: "settle (drawVisualization example_builtins) currentDataset example_clientWidth
        (resizes (drawVisualization example_builtins) currentDataset example_clientWidth
           (1000 # [1020, 1040, 1060, 1100]) example_window)
      = example_window\<lparr>timers := [],
          next_handle := next_handle example_window + Suc (length [1020, 1040, 1060, 1100::nat]),
          resizeTimeout := Some (next_handle example_window
                                   + length [1020, 1040, 1060, 1100::nat]),
          globals := drawVisualization example_builtins
             (example_clientWidth (last (1000 # [1020, 1040, 1060, 1100]) + 250))
             (globals example_window),
          redraws := redraws example_window
             @ [(last (1000 # [1020, 1040, 1060, 1100]) + 250,
                 example_clientWidth (last (1000 # [1020, 1040, 1060, 1100]) + 250))]\<rparr>"
    by blast
  have r: "redraws (settle (drawVisualization example_builtins) currentDataset example_clientWidth
        (resizes (drawVisualization example_builtins) currentDataset example_clientWidth
           [1000, 1020, 1040, 1060, 1100] example_window)) = [(1350, 800)]"
    unfolding eq by (simp add: example_window_def example_clientWidth_def)
  have g: "globals (settle (drawVisualization example_builtins) currentDataset example_clientWidth
        (resizes (drawVisualization example_builtins) currentDataset example_clientWidth
           [1000, 1020, 1040, 1060, 1100] example_window))
       = drawVisualization example_builtins 800 example_state"
    unfolding eq by (simp add: example_window_def example_clientWidth_def)
  have tm: "timers (resizes (drawVisualization example_builtins) currentDataset
           example_clientWidth [1000, 1020, 1040, 1060, 1100] example_window) = [(5, 1350)]"
    using resizes_burst [where t = 1000 and ts = "[1020, 1040, 1060, 1100]"
            and win = example_window and draw = "drawVisualization example_builtins"
            and dataset = currentDataset and cw = example_clientWidth] pre
    by (simp add: example_window_def)
  from un resize_debounced [where win = unloaded_window and B = example_builtins
         and cw = example_clientWidth and us = "[1000, 1020, 1040, 1060, 1100]"]
  have "redraws (settle (drawVisualization example_builtins) currentDataset example_clientWidth
        (resizes (drawVisualization example_builtins) currentDataset example_clientWidth
           [1000, 1020, 1040, 1060, 1100] unloaded_window)) = redraws unloaded_window"
    by blast
  then have u: "redraws (settle (drawVisualization example_builtins) currentDataset
        example_clientWidth
        (resizes (drawVisualization example_builtins) currentDataset example_clientWidth
           [1000, 1020, 1040, 1060, 1100] unloaded_window)) = []"
    by (simp add: unloaded_window_def)
  from b r g tm u show ?thesis by blast
qed

subsection \<open>The two modes\<close>

text \<open>
  Claim C1. For every dataset whose first record's keys are, in order, the dimension list
  the static table declares for its identifier, and whose inferred column types are the
  static type table of that identifier, loading it in the generic mode (\<^verbatim>\<open>extractDimensions\<close>,
  \<^verbatim>\<open>detectDataTypes\<close>, \<^verbatim>\<open>drawVisualization\<close> of \<^verbatim>\<open>src/script.js\<close>) and in the static mode
  (the tables and \<^verbatim>\<open>drawVisualization\<close> of \<^verbatim>\<open>src/unnamed/part_000\<close>) leaves the same chart in
  the container: the same SVG size and the same elements (axes, tick marks, tick labels,
  polylines and their colours, legend), the same \<^verbatim>\<open>currentData\<close> and \<^verbatim>\<open>currentDataset\<close>; and
  every later redraw at the same container width gives the same chart in both modes.
\<close>

theorem generic_static_same_rendering:
  assumes "dimensions year = Some (extractDimensions data)"
      and "dataTypes year = Some (detectDataTypes B data (extractDimensions data))"
  shows "loadDataset B clientWidth year (Json data) st
           = Inr (st\<lparr>currentData := data, currentDataset := Some year,
                     currentDimensions := extractDimensions data,
                     currentDataTypes := detectDataTypes B data (extractDimensions data),
                     visualization :=
                       Chart (render B clientWidth (extractDimensions data)
                                (detectDataTypes B data (extractDimensions data)) data)\<rparr>)
       \<and> loadDataset_static B clientWidth year (Json data) pg
           = Inr (pg\<lparr>currentData := data, currentDataset := Some year,
                     visualization :=
                       Chart (render B clientWidth (extractDimensions data)
                                (detectDataTypes B data (extractDimensions data)) data)\<rparr>)
       \<and> (\<forall>st' pg'.
             loadDataset B clientWidth year (Json data) st = Inr st'
             \<and> loadDataset_static B clientWidth year (Json data) pg = Inr pg' \<longrightarrow>
               visualization st' = visualization pg'
               \<and> currentData st' = currentData pg'
               \<and> currentDataset st' = currentDataset pg'
               \<and> (\<forall>w. visualization (drawVisualization B w st')
                          = visualization (redraw_static B w pg')))"
proof -
  let ?dims = "extractDimensions data"
  let ?types = "detectDataTypes B data ?dims"
  let ?st' = "st\<lparr>currentData := data, currentDataset := Some year,
                     currentDimensions := ?dims, currentDataTypes := ?types,
                     visualization := Chart (render B clientWidth ?dims ?types data)\<rparr>"
  let ?pg' = "pg\<lparr>currentData := data, currentDataset := Some year,
                     visualization := Chart (render B clientWidth ?dims ?types data)\<rparr>"
  have g: "loadDataset B clientWidth year (Json data) st = Inr ?st'"
    by (simp add: loadDataset_def loadDataset_try_def drawVisualization_def Let_def)
  have s: "loadDataset_static B clientWidth year (Json data) pg = Inr ?pg'"
    using assms
    by (simp add: loadDataset_static_def loadDataset_static_try_def
          drawVisualization_static_def Let_def)
  have again: "visualization (drawVisualization B w ?st')
                 = visualization (redraw_static B w ?pg')" for w
    using assms
    by (simp add: drawVisualization_def redraw_static_def drawVisualization_static_def Let_def)
  have same: "visualization ?st' = visualization ?pg' \<and> currentData ?st' = currentData ?pg'
              \<and> currentDataset ?st' = currentDataset ?pg'"
    by simp
  from g s again same show ?thesis by simp
qed

text \<open>A dataset with the keys and the column types of the 2012 table.\<close>

lemma students_2012_dimensions: "dimensions 2012 = Some (extractDimensions students_2012)"
  by (simp add: dimensions_def extractDimensions_def students_2012_def)

lemma students_2012_types:
  "dataTypes 2012 =
     Some (detectDataTypes example_builtins students_2012 (extractDimensions students_2012))"
  by (simp add: dataTypes_def dataTypes_2012_def detectDataTypes_def assign_label_def
        extractDimensions_def students_2012_def isNumeric_def get_lit example_builtins_def)

theorem generic_static_same_rendering_witness:
  "dimensions 2012 = Some (extractDimensions students_2012)
   \<and> loadDataset example_builtins 1000 2012 (Json students_2012) initial_state
       = Inr (initial_state\<lparr>currentData := students_2012, currentDataset := Some 2012,
                 currentDimensions := extractDimensions students_2012,
                 currentDataTypes :=
                   detectDataTypes example_builtins students_2012
                     (extractDimensions students_2012),
                 visualization :=
                   Chart (render example_builtins 1000 (extractDimensions students_2012)
                            (detectDataTypes example_builtins students_2012
                               (extractDimensions students_2012)) students_2012)\<rparr>)
   \<and> loadDataset_static example_builtins 1000 2012 (Json students_2012) initial_page
       = Inr (initial_page\<lparr>currentData := students_2012, currentDataset := Some 2012,
                 visualization :=
                   Chart (render example_builtins 1000 (extractDimensions students_2012)
                            (detectDataTypes example_builtins students_2012
                               (extractDimensions students_2012)) students_2012)\<rparr>)"
  using generic_static_same_rendering
          [OF students_2012_dimensions students_2012_types, of 1000 initial_state initial_page]
        students_2012_dimensions
  by blast

subsection \<open>Axes\<close>

lemma length_tickNodes [simp]: "length (tickNodes x y l) = 2"
  by (simp add: tickNodes_def)

lemma length_concat_ticks:
  "length (concat (map (\<lambda>t. tickNodes x (f t) (g t)) ts)) = 2 * length ts"
  by (induction ts) simp_all

text \<open>
  Property X1. The axis of a dimension consists of its line and its label and, for a
  dimension typed numeric, exactly five tick marks with their five labels; for any other
  dimension, one tick mark and one label for each distinct value of the column that is
  neither \<^verbatim>\<open>undefined\<close> nor \<^verbatim>\<open>null\<close>.
\<close>

theorem axis_elements:
  "(types dm = Some Numeric \<longrightarrow>
      length (drawAxis B types (buildScale B data types h) w h n (i, dm)) = 2 + 2 * 5)
   \<and> (types dm \<noteq> Some Numeric \<longrightarrow>
      length (drawAxis B types (buildScale B data types h) w h n (i, dm))
        = 2 + 2 * card (set [v \<leftarrow> map (\<lambda>d. get d dm) data. v \<noteq> Undefined \<and> v \<noteq> Null]))"
proof -
  let ?vals = "[v \<leftarrow> map (\<lambda>d. get d dm) data. v \<noteq> Undefined \<and> v \<noteq> Null]"
  have num: "length (drawAxis B types (buildScale B data types h) w h n (i, dm)) = 2 + 2 * 5"
    if "types dm = Some Numeric"
    using that buildScale_numeric [where types = types and dm = dm and vals = ?vals
             and data = data and B = B and h = h]
    by (simp add: drawAxis_def Let_def length_concat_ticks)
  have "length (js_sort B (Set_values ?vals)) = card (set ?vals)"
    using distinct_card [of "js_sort B (Set_values ?vals)"]
    by (simp add: js_sort_def)
  then have nom: "length (drawAxis B types (buildScale B data types h) w h n (i, dm))
        = 2 + 2 * card (set ?vals)"
    if "types dm \<noteq> Some Numeric"
    using that buildScale_nominal [where types = types and dm = dm and vals = ?vals
             and data = data and B = B and h = h]
    by (simp add: drawAxis_def Let_def length_concat_ticks)
  from num nom show ?thesis by blast
qed

text \<open>In the three-record dataset the axis of \<^verbatim>\<open>a\<close> has 5 ticks and that of \<^verbatim>\<open>b\<close> has 2.\<close>

theorem axis_elements_witness:
  "length (drawAxis example_builtins three_records_types
      (buildScale example_builtins three_records three_records_types 600)
      600 600 2 (0, lit ''a'')) = 12
   \<and> length (drawAxis example_builtins three_records_types
      (buildScale example_builtins three_records three_records_types 600)
      600 600 2 (1, lit ''b'')) = 6"
proof -
  have ta: "three_records_types (lit ''a'') = Some Numeric"
    by (simp add: three_records_types_def)
  have tb: "three_records_types (lit ''b'') \<noteq> Some Numeric"
    by (simp add: three_records_types_def)
  have cb: "card (set [v \<leftarrow> map (\<lambda>d. get d (lit ''b'')) three_records.
                         v \<noteq> Undefined \<and> v \<noteq> Null]) = 2"
    unfolding three_records_b List.card_set by simp
  from ta axis_elements [where types = three_records_types and dm = "lit ''a''"
      and B = example_builtins and data = three_records and h = 600 and w = 600 and n = 2
      and i = 0]
  have a: "length (drawAxis example_builtins three_records_types
      (buildScale example_builtins three_records three_records_types 600)
      600 600 2 (0, lit ''a'')) = 2 + 2 * 5" by blast
  from tb axis_elements [where types = three_records_types and dm = "lit ''b''"
      and B = example_builtins and data = three_records and h = 600 and w = 600 and n = 2
      and i = 1]
  have b: "length (drawAxis example_builtins three_records_types
      (buildScale example_builtins three_records three_records_types 600)
      600 600 2 (1, lit ''b'')) = 2 + 2 * card (set [v \<leftarrow> map (\<lambda>d. get d (lit ''b'')) three_records.
                         v \<noteq> Undefined \<and> v \<noteq> Null])" by blast
  from a b cb show ?thesis by simp
qed

subsection \<open>A dataset outside the static tables\<close>

text \<open>
  Property X2. In the static mode, loading a dataset whose identifier is not a key of the
  \<^verbatim>\<open>dimensions\<close> table, the fetch and the parse succeeding, also ends in the \<^verbatim>\<open>catch\<close> block:
  \<^verbatim>\<open>drawVisualization\<close> throws on \<^verbatim>\<open>dims.length\<close>, the container shows the error message, and
  \<^verbatim>\<open>currentData\<close> and \<^verbatim>\<open>currentDataset\<close> hold the new dataset.
\<close>

theorem loadDataset_static_unknown_year:
  assumes "dimensions year = None"
  shows "loadDataset_static B clientWidth year (Json data) pg
           = Inr (pg\<lparr>currentData := data, currentDataset := Some year,
                     visualization := Html errorHtml\<rparr>)"
  using assms
  by (simp add: loadDataset_static_def loadDataset_static_try_def
        drawVisualization_static_def Let_def)

theorem loadDataset_static_unknown_year_witness:
  "dimensions 2020 = None
   \<and> loadDataset_static example_builtins 1000 2020 (Json three_records) initial_page
       = Inr (initial_page\<lparr>currentData := three_records, currentDataset := Some 2020,
                 visualization := Html errorHtml\<rparr>)"
proof -
  have d: "dimensions 2020 = None" by (simp add: dimensions_def)
  from loadDataset_static_unknown_year [OF d, of example_builtins 1000 three_records initial_page]
    d show ?thesis by blast
qed

end
